theory Spec2Isabelle
  imports Complex_Main "HOL-Library.Log_Nat"
begin

section \<open>JavaScript values at the boundary of the handlers\<close>

text \<open>
  A JavaScript number is the rational it denotes (every finite double is one), and is
  compared as such; the arithmetic of the hook rounds its results as IEEE 754 doubles do
  (\<open>double\<close> below). NaN, the infinities (so results beyond the range of a double) and
  the sign of zero are outside this development. A field of a JSON body that may be missing
  (\<^verbatim>\<open>undefined\<close>) or \<^verbatim>\<open>null\<close> is an option, \<open>None\<close> standing for both: every
  test the handlers apply (\<^verbatim>\<open>!x\<close>, \<^verbatim>\<open>x || d\<close>, \<^verbatim>\<open>x !== 0\<close>) treats the two alike.
  Identifiers and tokens are strings, amounts are numbers, as every caller in the
  repository sends them.
\<close>

type_synonym number = rat

text \<open>Truthiness of an optional string: \<^verbatim>\<open>undefined\<close>, \<^verbatim>\<open>null\<close> and \<^verbatim>\<open>""\<close> are falsy.\<close>

fun truthy :: "string option \<Rightarrow> bool" where
  "truthy None = False"
| "truthy (Some s) = (s \<noteq> [])"

text \<open>Truthiness of an optional number: \<^verbatim>\<open>undefined\<close>, \<^verbatim>\<open>null\<close> and \<^verbatim>\<open>0\<close> are falsy.\<close>

fun truthy_num :: "number option \<Rightarrow> bool" where
  "truthy_num None = False"
| "truthy_num (Some x) = (x \<noteq> 0)"

text \<open>\<^verbatim>\<open>x || 0\<close> on an optional number.\<close>

definition or_zero :: "number option \<Rightarrow> number" where
  "or_zero x = (case x of None \<Rightarrow> 0 | Some v \<Rightarrow> if v \<noteq> 0 then v else 0)"

text \<open>\<^verbatim>\<open>a > b\<close> where \<open>b\<close> may be \<^verbatim>\<open>undefined\<close>: a comparison with \<^verbatim>\<open>undefined\<close>
  is false in JavaScript.\<close>

fun js_gt :: "number \<Rightarrow> number option \<Rightarrow> bool" where
  "js_gt a None = False"
| "js_gt a (Some b) = (a > b)"

subsection \<open>Arithmetic on doubles\<close>

text \<open>For \<open>x > 0\<close>, the \<open>k\<close> with \<open>2 ^ k \<le> x < 2 ^ (k + 1)\<close>.\<close>

definition floor_log2 :: "rat \<Rightarrow> int" where
  "floor_log2 x = (if 1 \<le> x then bitlen \<lfloor>x\<rfloor> - 1 else - bitlen (\<lceil>1 / x\<rceil> - 1))"

definition pow2 :: "int \<Rightarrow> rat" where
  "pow2 k = (if 0 \<le> k then 2 ^ nat k else 1 / 2 ^ nat (- k))"

text \<open>Rounding to the nearest integer, a tie going to the even one.\<close>

definition round_half_even :: "rat \<Rightarrow> int" where
  "round_half_even r =
     (let f = \<lfloor>r\<rfloor>; d = r - of_int f
      in if d < 1 / 2 then f else if 1 / 2 < d then f + 1
         else if even f then f else f + 1)"

text \<open>
  The double nearest to \<open>x\<close> (round to nearest, ties to even): a significand of 53 bits
  at the exponent of \<open>x\<close>, the exponent not below that of the subnormal numbers. This is
  the result of an IEEE 754 operation whose exact result is \<open>x\<close>, as long as it stays in
  range.
\<close>

definition double :: "rat \<Rightarrow> number" where
  "double x =
     (if x = 0 then 0
      else (let e = max (floor_log2 \<bar>x\<bar> - 52) (- 1074)
            in sgn x * of_int (round_half_even (\<bar>x\<bar> / pow2 e)) * pow2 e))"

text \<open>\<^verbatim>\<open>a + b\<close>, \<^verbatim>\<open>a - b\<close> and \<^verbatim>\<open>a * b\<close> on numbers.\<close>

definition js_add :: "number \<Rightarrow> number \<Rightarrow> number" where
  "js_add a b = double (a + b)"

definition js_sub :: "number \<Rightarrow> number \<Rightarrow> number" where
  "js_sub a b = double (a - b)"

definition js_mul :: "number \<Rightarrow> number \<Rightarrow> number" where
  "js_mul a b = double (a * b)"

text \<open>\<^verbatim>\<open>Number.isSafeInteger(x)\<close>: a whole number of magnitude below \<open>2 ^ 53\<close>.\<close>

definition isSafeInteger :: "number \<Rightarrow> bool" where
  "isSafeInteger x \<longleftrightarrow> x = of_int \<lfloor>x\<rfloor> \<and> \<bar>x\<bar> < 2 ^ 53"

section \<open>The tables the inventory check reads\<close>

record setting_row =
  setting_key :: string
  setting_value :: string

record product_row =
  product_id :: string
  product_stockManagementType :: "string option"
  product_name :: string

text \<open>
  \<open>inv_availableWeight\<close> is a decimal column: the driver hands it over as a decimal string
  and the handler reads it with \<^verbatim>\<open>parseFloat\<close>; the model keeps the number
  \<^verbatim>\<open>parseFloat\<close> returns for it, \<open>None\<close> for SQL NULL.
\<close>

record inventory_row =
  inv_productId :: string
  inv_variantId :: "string option"
  inv_availableQuantity :: "number option"
  inv_availableWeight :: "number option"

text \<open>A query that throws is listed in \<open>failing\<close>.\<close>

datatype query = SettingsQuery | ProductQuery | InventoryQuery

record database =
  settings :: "setting_row list"
  products :: "product_row list"
  productInventory :: "inventory_row list"
  failing :: "query list"

section \<open>The inventory check endpoint\<close>

record check_request =
  productId :: "string option"
  variantId :: "string option"
  requestedQuantity :: "number option"
  requestedWeight :: "number option"

text \<open>\<open>Malformed\<close>: \<^verbatim>\<open>await req.json()\<close> or the destructuring of its result throws.\<close>

datatype request_body = Malformed | Body check_request

datatype message =
    NoInventoryRecord
  | StockAvailable
  | OnlyGrams number
  | OnlyUnits number

text \<open>The JSON of an answer with status 200; a key the handler leaves out is \<open>None\<close>.\<close>

record check_result =
  success :: bool
  available :: bool
  stockManagementEnabled :: bool
  isWeightBased :: "bool option"
  availableQuantity :: "number option"
  availableWeight :: "number option"
  res_requestedQuantity :: "number option"
  res_requestedWeight :: "number option"
  res_message :: "message option"

text \<open>\<open>Failure status error\<close> is \<^verbatim>\<open>NextResponse.json({ error }, { status })\<close>.\<close>

datatype response = Failure nat string | Json check_result

definition getStockManagementSetting :: "database \<Rightarrow> bool" where
  "getStockManagementSetting d =
     (if SettingsQuery \<in> set (failing d) then False
      else case find (\<lambda>s. setting_key s = ''stock_management_enabled'') (settings d) of
             None \<Rightarrow> False
           | Some s \<Rightarrow> setting_value s = ''true'')"

definition isWeightBasedProduct :: "string \<Rightarrow> bool" where
  "isWeightBasedProduct stockManagementType = (stockManagementType = ''weight'')"

text \<open>\<^verbatim>\<open>db.query.products.findFirst({ where: eq(products.id, productId) })\<close>\<close>

definition find_product :: "database \<Rightarrow> string \<Rightarrow> product_row option" where
  "find_product d pid = find (\<lambda>p. product_id p = pid) (products d)"

text \<open>The inventory select with \<^verbatim>\<open>limit(1)\<close>: the variant is part of the condition only
  when \<^verbatim>\<open>variantId\<close> is truthy.\<close>

definition find_inventory :: "database \<Rightarrow> string \<Rightarrow> string option \<Rightarrow> inventory_row option" where
  "find_inventory d pid vid =
     find (\<lambda>r. if truthy vid then inv_productId r = pid \<and> inv_variantId r = vid
                else inv_productId r = pid)
          (productInventory d)"

text \<open>\<^verbatim>\<open>isWeightBasedProduct(product.stockManagementType || 'quantity')\<close>\<close>

definition product_isWeightBased :: "product_row \<Rightarrow> bool" where
  "product_isWeightBased product =
     isWeightBasedProduct
       (case product_stockManagementType product of
          None \<Rightarrow> ''quantity''
        | Some t \<Rightarrow> if t \<noteq> [] then t else ''quantity'')"

text \<open>\<^verbatim>\<open>parseFloat(inv.availableWeight || '0')\<close> and \<^verbatim>\<open>inv.availableQuantity || 0\<close>\<close>

definition row_availableWeight :: "inventory_row \<Rightarrow> number" where
  "row_availableWeight row = (case inv_availableWeight row of None \<Rightarrow> 0 | Some w \<Rightarrow> w)"

definition row_availableQuantity :: "inventory_row \<Rightarrow> number" where
  "row_availableQuantity row = or_zero (inv_availableQuantity row)"

definition disabled_result :: "check_request \<Rightarrow> check_result" where
  "disabled_result r =
     \<lparr>success = True, available = True, stockManagementEnabled = False,
      isWeightBased = Some False, availableQuantity = Some 999999,
      availableWeight = Some 999999,
      res_requestedQuantity = Some (or_zero (requestedQuantity r)),
      res_requestedWeight = Some (or_zero (requestedWeight r)),
      res_message = None\<rparr>"

definition no_record_result :: "bool \<Rightarrow> check_request \<Rightarrow> check_result" where
  "no_record_result wb r =
     \<lparr>success = False, available = False, stockManagementEnabled = True,
      isWeightBased = Some wb, availableQuantity = Some 0, availableWeight = Some 0,
      res_requestedQuantity = Some (or_zero (requestedQuantity r)),
      res_requestedWeight = Some (or_zero (requestedWeight r)),
      res_message = Some NoInventoryRecord\<rparr>"

definition weight_result :: "inventory_row \<Rightarrow> check_request \<Rightarrow> check_result" where
  "weight_result row r =
     (let availableWeight = row_availableWeight row;
          isAvailable = (availableWeight \<ge> or_zero (requestedWeight r))
      in \<lparr>success = True, available = isAvailable, stockManagementEnabled = True,
          isWeightBased = Some True, availableQuantity = None,
          availableWeight = Some availableWeight,
          res_requestedQuantity = None,
          res_requestedWeight = Some (or_zero (requestedWeight r)),
          res_message = Some (if isAvailable then StockAvailable
                              else OnlyGrams availableWeight)\<rparr>)"

definition quantity_result :: "inventory_row \<Rightarrow> check_request \<Rightarrow> check_result" where
  "quantity_result row r =
     (let availableQuantity = row_availableQuantity row;
          isAvailable = (availableQuantity \<ge> or_zero (requestedQuantity r))
      in \<lparr>success = True, available = isAvailable, stockManagementEnabled = True,
          isWeightBased = Some False, availableQuantity = Some availableQuantity,
          availableWeight = None,
          res_requestedQuantity = Some (or_zero (requestedQuantity r)),
          res_requestedWeight = None,
          res_message = Some (if isAvailable then StockAvailable
                              else OnlyUnits availableQuantity)\<rparr>)"

text \<open>The handler of \<^verbatim>\<open>POST /api/inventory/check\<close> that knows both stock modes.\<close>

fun POST :: "database \<Rightarrow> request_body \<Rightarrow> response" where
  "POST d Malformed = Failure 500 ''Failed to check inventory''"
| "POST d (Body r) =
     (if \<not> truthy (productId r) then Failure 400 ''Product ID is required''
      else if \<not> getStockManagementSetting d then Json (disabled_result r)
      else if ProductQuery \<in> set (failing d) then Failure 500 ''Failed to check inventory''
      else case find_product d (the (productId r)) of
        None \<Rightarrow> Failure 404 ''Product not found''
      | Some product \<Rightarrow>
          (let wb = product_isWeightBased product
           in if wb \<and> \<not> truthy_num (requestedWeight r) \<and> requestedWeight r \<noteq> Some 0
              then Failure 400 ''Requested weight is required for weight-based products''
              else if \<not> wb \<and> \<not> truthy_num (requestedQuantity r)
                        \<and> requestedQuantity r \<noteq> Some 0
              then Failure 400 ''Requested quantity is required for quantity-based products''
              else if InventoryQuery \<in> set (failing d)
              then Failure 500 ''Failed to check inventory''
              else case find_inventory d (the (productId r)) (variantId r) of
                None \<Rightarrow> Json (no_record_result wb r)
              | Some row \<Rightarrow>
                  if wb then Json (weight_result row r) else Json (quantity_result row r)))"

text \<open>The handler of the same route that knows quantities only.\<close>

fun POST_quantity :: "database \<Rightarrow> request_body \<Rightarrow> response" where
  "POST_quantity d Malformed = Failure 500 ''Failed to check inventory''"
| "POST_quantity d (Body r) =
     (if \<not> truthy (productId r) \<or> \<not> truthy_num (requestedQuantity r)
      then Failure 400 ''Product ID and requested quantity are required''
      else if \<not> getStockManagementSetting d
      then Json \<lparr>success = True, available = True, stockManagementEnabled = False,
                 isWeightBased = None, availableQuantity = Some 999999,
                 availableWeight = None, res_requestedQuantity = requestedQuantity r,
                 res_requestedWeight = None, res_message = None\<rparr>
      else if ProductQuery \<in> set (failing d) then Failure 500 ''Failed to check inventory''
      else case find_product d (the (productId r)) of
        None \<Rightarrow> Failure 404 ''Product not found''
      | Some product \<Rightarrow>
          if InventoryQuery \<in> set (failing d) then Failure 500 ''Failed to check inventory''
          else (case find_inventory d (the (productId r)) (variantId r) of
            None \<Rightarrow>
              Json \<lparr>success = False, available = False, stockManagementEnabled = True,
                    isWeightBased = None, availableQuantity = Some 0,
                    availableWeight = None, res_requestedQuantity = requestedQuantity r,
                    res_requestedWeight = None, res_message = Some NoInventoryRecord\<rparr>
          | Some row \<Rightarrow>
              (let availableQuantity = row_availableQuantity row;
                   isAvailable = (availableQuantity \<ge> the (requestedQuantity r))
               in Json \<lparr>success = True, available = isAvailable,
                         stockManagementEnabled = True, isWeightBased = None,
                         availableQuantity = Some availableQuantity,
                         availableWeight = None,
                         res_requestedQuantity = requestedQuantity r,
                         res_requestedWeight = None,
                         res_message = Some (if isAvailable then StockAvailable
                                             else OnlyUnits availableQuantity)\<rparr>)))"

section \<open>The cart hook: adding a product to the cart\<close>

record Product =
  p_id :: string
  p_variantId :: "string option"
  p_stockManagementType :: "string option"
  p_name :: string

text \<open>A cart line: \<open>item_quantity\<close> is the unit count; for a weight-based product
  \<open>item_numericValue\<close> is the weight in grams stored with the line.\<close>

record cart_item =
  item_product :: Product
  item_quantity :: number
  item_numericValue :: "number option"

text \<open>The description of the "Insufficient stock" toast: the server's message, or the
  text the hook builds from the reported amount when the answer has none.\<close>

datatype description =
    ServerMessage message
  | OnlyGramsAvailable "number option"
  | OnlyUnitsAvailable "number option"

text \<open>
  What \<^verbatim>\<open>addToCartWithToast\<close> does, named after the title of the toast it shows.
  \<open>LimitedStock canAdd available inCart\<close> and \<open>AlreadyAtMaximum inCart\<close> carry the numbers
  their descriptions print (for a weighed product after \<^verbatim>\<open>toFixed(0)\<close>, which is left
  out here); \<open>AddedToCart\<close> carries the arguments of \<^verbatim>\<open>cart.addToCart\<close>, which is called
  in that case alone.
\<close>

datatype outcome =
    ErrorToast string
  | InsufficientStock description
  | LimitedStock number number number
  | AlreadyAtMaximum number
  | AddedToCart Product number "number option"

text \<open>\<^verbatim>\<open>response.ok\<close>\<close>

fun ok :: "response \<Rightarrow> bool" where
  "ok (Failure status e) = (200 \<le> status \<and> status \<le> 299)"
| "ok (Json result) = True"

text \<open>\<^verbatim>\<open>weightInGrams || quantity\<close>\<close>

definition weight_or_quantity :: "number option \<Rightarrow> number \<Rightarrow> number" where
  "weight_or_quantity weightInGrams quantity =
     (if truthy_num weightInGrams then the weightInGrams else quantity)"

text \<open>The body the hook sends to \<^verbatim>\<open>/api/inventory/check\<close>.\<close>

definition check_body :: "Product \<Rightarrow> number \<Rightarrow> number option \<Rightarrow> check_request" where
  "check_body product quantity weightInGrams =
     (let wb = (p_stockManagementType product = Some ''weight'')
      in \<lparr>productId = Some (p_id product),
          variantId = (if truthy (p_variantId product) then p_variantId product else None),
          requestedQuantity = (if \<not> wb then Some quantity else None),
          requestedWeight =
            (if wb then Some (weight_or_quantity weightInGrams quantity) else None)\<rparr>)"

text \<open>The cart line of the same product (and variant, when the product has one).\<close>

definition existingItem :: "cart_item list \<Rightarrow> Product \<Rightarrow> cart_item option" where
  "existingItem items product =
     find (\<lambda>item. p_id (item_product item) = p_id product \<and>
                   (\<not> truthy (p_variantId product) \<or>
                    p_variantId (item_product item) = p_variantId product))
          items"

definition currentQuantityInCart :: "cart_item list \<Rightarrow> Product \<Rightarrow> number" where
  "currentQuantityInCart items product =
     (case existingItem items product of
        None \<Rightarrow> 0
      | Some item \<Rightarrow> or_zero (Some (item_quantity item)))"

definition currentWeightInCart :: "cart_item list \<Rightarrow> Product \<Rightarrow> number" where
  "currentWeightInCart items product =
     (case existingItem items product of
        None \<Rightarrow> 0
      | Some item \<Rightarrow> or_zero (item_numericValue item))"

text \<open>The weight of the product the cart holds, as the hook computes it each time:
  \<^verbatim>\<open>currentQuantityInCart * currentWeightInCart\<close>.\<close>

definition committedWeight :: "cart_item list \<Rightarrow> Product \<Rightarrow> number" where
  "committedWeight items product =
     js_mul (currentQuantityInCart items product) (currentWeightInCart items product)"

definition totalRequestedWeight ::
  "cart_item list \<Rightarrow> Product \<Rightarrow> number \<Rightarrow> number option \<Rightarrow> number" where
  "totalRequestedWeight items product quantity weightInGrams =
     js_add (committedWeight items product) (weight_or_quantity weightInGrams quantity)"

definition totalRequestedQuantity :: "cart_item list \<Rightarrow> Product \<Rightarrow> number \<Rightarrow> number" where
  "totalRequestedQuantity items product quantity =
     js_add (currentQuantityInCart items product) quantity"

text \<open>The part of the hook after the answer has arrived with \<^verbatim>\<open>response.ok\<close> and
  \<^verbatim>\<open>result.available\<close>.\<close>

definition check_total ::
  "check_result \<Rightarrow> cart_item list \<Rightarrow> Product \<Rightarrow> number \<Rightarrow> number option \<Rightarrow> outcome" where
  "check_total result items product quantity weightInGrams =
     (let wb = (p_stockManagementType product = Some ''weight'')
      in if wb then
           (if stockManagementEnabled result \<and>
               js_gt (totalRequestedWeight items product quantity weightInGrams)
                 (availableWeight result)
            then (let canAdd = js_sub (the (availableWeight result))
                                 (committedWeight items product)
                  in if canAdd > 0
                     then LimitedStock canAdd (the (availableWeight result))
                            (committedWeight items product)
                     else AlreadyAtMaximum (committedWeight items product))
            else AddedToCart product quantity weightInGrams)
         else
           (if stockManagementEnabled result \<and>
               js_gt (totalRequestedQuantity items product quantity)
                 (availableQuantity result)
            then (let canAdd = js_sub (the (availableQuantity result))
                                 (currentQuantityInCart items product)
                  in if canAdd > 0
                     then LimitedStock canAdd (the (availableQuantity result))
                            (currentQuantityInCart items product)
                     else AlreadyAtMaximum (currentQuantityInCart items product))
            else AddedToCart product quantity None))"

text \<open>
  \<^verbatim>\<open>addToCartWithToast(product, quantity = 1, weightInGrams?)\<close>, with the database the
  endpoint reads as a parameter: the \<^verbatim>\<open>fetch\<close> is the call of \<open>POST\<close>. A \<^verbatim>\<open>fetch\<close> that
  throws (the hook catches it and shows an "Error" toast) is outside the model.
\<close>

definition addToCartWithToast ::
  "database \<Rightarrow> cart_item list \<Rightarrow> Product \<Rightarrow> number \<Rightarrow> number option \<Rightarrow> outcome" where
  "addToCartWithToast d items product quantity weightInGrams =
     (let wb = (p_stockManagementType product = Some ''weight'');
          response = POST d (Body (check_body product quantity weightInGrams))
      in case response of
           Failure status e \<Rightarrow>
             if \<not> ok response
             then ErrorToast (if e \<noteq> [] then e else ''Failed to check inventory'')
             else InsufficientStock
                    (if wb then OnlyGramsAvailable None else OnlyUnitsAvailable None)
         | Json result \<Rightarrow>
             if \<not> available result
             then InsufficientStock
                    (case res_message result of
                       Some m \<Rightarrow> ServerMessage m
                     | None \<Rightarrow> if wb then OnlyGramsAvailable (availableWeight result)
                               else OnlyUnitsAvailable (availableQuantity result))
             else check_total result items product quantity weightInGrams)"

section \<open>The register endpoint\<close>

record user_row =
  user_id :: string
  user_name :: "string option"
  user_note :: "string option"
  user_password :: string
  user_status :: string
  user_email :: "string option"
  user_phone :: "string option"

record magic_link_row =
  link_id :: string
  link_token :: string
  link_isEnabled :: bool

record usage_row =
  usage_id :: string
  usage_userId :: string
  usage_magicLinkId :: string

record auth_database =
  users :: "user_row list"
  globalMagicLink :: "magic_link_row list"
  magicLinkUsage :: "usage_row list"

record register_request =
  reg_email :: "string option"
  reg_password :: "string option"
  reg_name :: "string option"
  reg_note :: "string option"
  reg_magicToken :: "string option"

datatype register_message = AutoApproved | PendingApproval

text \<open>\<open>Registered message requiresApproval autoApproved\<close> is the JSON of a success;
  \<open>autoApproved\<close> is \<open>None\<close> where the handler leaves the key out.\<close>

datatype register_response =
    Rejected nat string
  | Registered register_message bool "bool option"

text \<open>The row \<^verbatim>\<open>magicLink[0]\<close> when the token is truthy, the select finds a row and
  that row is enabled: \<^verbatim>\<open>magicLinkData\<close>, and \<^verbatim>\<open>isMagicLinkValid\<close> is whether it is
  there.\<close>

definition magicLinkData :: "auth_database \<Rightarrow> string option \<Rightarrow> magic_link_row option" where
  "magicLinkData d token =
     (if truthy token then
        (case find (\<lambda>l. link_token l = the token) (globalMagicLink d) of
           None \<Rightarrow> None
         | Some l \<Rightarrow> if link_isEnabled l then Some l else None)
      else None)"

definition isMagicLinkValid :: "auth_database \<Rightarrow> string option \<Rightarrow> bool" where
  "isMagicLinkValid d token = (magicLinkData d token \<noteq> None)"

text \<open>The first row of the select on the email column or, for a phone number, on the
  phone column.\<close>

definition existingUser :: "auth_database \<Rightarrow> string \<Rightarrow> user_row option" where
  "existingUser d e =
     (if CHR ''@'' \<in> set e then find (\<lambda>u. user_email u = Some e) (users d)
      else find (\<lambda>u. user_phone u = Some e) (users d))"

text \<open>
  The handler of \<^verbatim>\<open>POST /api/register\<close>. The two \<^verbatim>\<open>uuidv4()\<close> values and the bcrypt
  hash are parameters. The result is the database after the inserts, the address the
  welcome mail goes to (if any; a failure to send it is swallowed), and the answer. The
  handler catches nothing, and its queries are taken to succeed.
\<close>

definition register ::
  "string \<Rightarrow> string \<Rightarrow> (string \<Rightarrow> string) \<Rightarrow> auth_database \<Rightarrow> register_request
     \<Rightarrow> auth_database \<times> string option \<times> register_response" where
  "register uuid1 uuid2 hash d r =
     (if \<not> truthy (reg_email r) \<or> \<not> truthy (reg_password r)
      then (d, None, Rejected 400 ''Email or phone number and password are required.'')
      else if \<not> truthy (reg_name r)
      then (d, None, Rejected 400 ''Name is required.'')
      else
        (let e = the (reg_email r);
             isEmail = (CHR ''@'' \<in> set e)
         in if existingUser d e \<noteq> None
            then (d, None,
                  Rejected 400 ''An account with this email or phone number already exists.'')
            else
              (let valid = isMagicLinkValid d (reg_magicToken r);
                   userData =
                     \<lparr>user_id = uuid1, user_name = reg_name r,
                      user_note = (if truthy (reg_note r) then reg_note r else None),
                      user_password = hash (the (reg_password r)),
                      user_status = (if valid then ''approved'' else ''pending''),
                      user_email =
                        (if isEmail then Some e
                         else Some (filter (\<lambda>c. c \<in> set ''0123456789'') e
                                    @ ''@phone.placeholder'')),
                      user_phone = (if isEmail then None else Some e)\<rparr>;
                   d1 = d\<lparr>users := users d @ [userData]\<rparr>;
                   d2 = (case magicLinkData d (reg_magicToken r) of
                           None \<Rightarrow> d1
                         | Some l \<Rightarrow>
                             d1\<lparr>magicLinkUsage := magicLinkUsage d1 @
                                  [\<lparr>usage_id = uuid2, usage_userId = uuid1,
                                    usage_magicLinkId = link_id l\<rparr>]\<rparr>)
               in (d2, (if isEmail then Some e else None),
                   if valid then Registered AutoApproved False (Some True)
                   else Registered PendingApproval True None))))"

section \<open>A small shop, for the concrete instances\<close>

text \<open>Stock management is switched on; apples are counted (5 in stock), tea is weighed
  (1000 g in stock), pears have no inventory record.\<close>

definition setting_on :: setting_row where
  "setting_on = \<lparr>setting_key = ''stock_management_enabled'', setting_value = ''true''\<rparr>"

definition apple_row :: product_row where
  "apple_row = \<lparr>product_id = ''apple'', product_stockManagementType = Some ''quantity'',
                 product_name = ''Apple''\<rparr>"

definition tea_row :: product_row where
  "tea_row = \<lparr>product_id = ''tea'', product_stockManagementType = Some ''weight'',
               product_name = ''Tea''\<rparr>"

definition pear_row :: product_row where
  "pear_row = \<lparr>product_id = ''pear'', product_stockManagementType = None,
                product_name = ''Pear''\<rparr>"

definition apple_stock :: inventory_row where
  "apple_stock = \<lparr>inv_productId = ''apple'', inv_variantId = None,
                   inv_availableQuantity = Some 5, inv_availableWeight = None\<rparr>"

definition tea_stock :: inventory_row where
  "tea_stock = \<lparr>inv_productId = ''tea'', inv_variantId = None,
                 inv_availableQuantity = None, inv_availableWeight = Some 1000\<rparr>"

definition shop :: database where
  "shop = \<lparr>settings = [setting_on],
            products = [apple_row, tea_row, pear_row],
            productInventory = [apple_stock, tea_stock],
            failing = []\<rparr>"

text \<open>The same shop without the settings row, and with a settings query that throws.\<close>

definition shop_unset :: database where
  "shop_unset = shop\<lparr>settings := []\<rparr>"

definition shop_unreadable :: database where
  "shop_unreadable = shop\<lparr>failing := [SettingsQuery]\<rparr>"

definition apple :: Product where
  "apple = \<lparr>p_id = ''apple'', p_variantId = None,
             p_stockManagementType = Some ''quantity'', p_name = ''Apple''\<rparr>"

definition tea :: Product where
  "tea = \<lparr>p_id = ''tea'', p_variantId = None,
           p_stockManagementType = Some ''weight'', p_name = ''Tea''\<rparr>"

definition pear :: Product where
  "pear = \<lparr>p_id = ''pear'', p_variantId = None,
            p_stockManagementType = None, p_name = ''Pear''\<rparr>"

definition quantity_request :: "string \<Rightarrow> number \<Rightarrow> check_request" where
  "quantity_request pid q =
     \<lparr>productId = Some pid, variantId = None, requestedQuantity = Some q,
      requestedWeight = None\<rparr>"

definition weight_request :: "string \<Rightarrow> number \<Rightarrow> check_request" where
  "weight_request pid w =
     \<lparr>productId = Some pid, variantId = None, requestedQuantity = None,
      requestedWeight = Some w\<rparr>"

definition in_cart :: "Product \<Rightarrow> number \<Rightarrow> number option \<Rightarrow> cart_item list" where
  "in_cart product n v =
     [\<lparr>item_product = product, item_quantity = n, item_numericValue = v\<rparr>]"

text \<open>A request that names no product; the answer to a request for one apple when
  stock management is off; the shop with a product query, and with an inventory query,
  that throws.\<close>

definition anonymous_request :: check_request where
  "anonymous_request =
     \<lparr>productId = None, variantId = None, requestedQuantity = Some 1,
      requestedWeight = None\<rparr>"

definition ghost_answer :: check_result where
  "ghost_answer =
     \<lparr>success = True, available = True, stockManagementEnabled = False,
      isWeightBased = Some False, availableQuantity = Some 999999,
      availableWeight = Some 999999, res_requestedQuantity = Some 1,
      res_requestedWeight = Some 0, res_message = None\<rparr>"

definition shop_no_products :: database where
  "shop_no_products = shop\<lparr>failing := [ProductQuery]\<rparr>"

definition shop_no_inventory :: database where
  "shop_no_inventory = shop\<lparr>failing := [InventoryQuery]\<rparr>"

text \<open>The shop with \<open>w\<close> grams of tea in stock.\<close>

definition tea_shop :: "number \<Rightarrow> database" where
  "tea_shop w =
     shop\<lparr>productInventory := [apple_stock, tea_stock\<lparr>inv_availableWeight := Some w\<rparr>]\<rparr>"

text \<open>A registration desk with one enabled and one disabled magic link.\<close>

definition desk :: auth_database where
  "desk = \<lparr>users = [],
            globalMagicLink =
              [\<lparr>link_id = ''L1'', link_token = ''open'', link_isEnabled = True\<rparr>,
               \<lparr>link_id = ''L2'', link_token = ''shut'', link_isEnabled = False\<rparr>],
            magicLinkUsage = []\<rparr>"

definition applicant :: "string option \<Rightarrow> register_request" where
  "applicant token =
     \<lparr>reg_email = Some ''ann@example.org'', reg_password = Some ''secret'',
      reg_name = Some ''Ann'', reg_note = None, reg_magicToken = token\<rparr>"

section \<open>Facts about the model\<close>

lemma or_zero_Some: "or_zero (Some x) = x"
  by (simp add: or_zero_def)

lemma or_zero_None: "or_zero None = 0"
  by (simp add: or_zero_def)

lemma find_inventory_variant:
  "find_inventory d pid (if truthy v then v else None) = find_inventory d pid v"
  by (simp add: find_inventory_def)

text \<open>The paths through the handler.\<close>

lemma POST_no_productId:
  "\<not> truthy (productId r) \<Longrightarrow> POST d (Body r) = Failure 400 ''Product ID is required''"
  by simp

lemma POST_disabled:
  "\<not> getStockManagementSetting d \<Longrightarrow> truthy (productId r) \<Longrightarrow>
   POST d (Body r) = Json (disabled_result r)"
  by simp

lemma POST_no_record:
  assumes "getStockManagementSetting d" and "ProductQuery \<notin> set (failing d)"
    and "InventoryQuery \<notin> set (failing d)"
    and "productId r = Some pid" and "pid \<noteq> []"
    and "find_product d pid = Some p"
    and "if product_isWeightBased p then requestedWeight r \<noteq> None
         else requestedQuantity r \<noteq> None"
    and "find_inventory d pid (variantId r) = None"
  shows "POST d (Body r) = Json (no_record_result (product_isWeightBased p) r)"
  using assms by (auto simp: Let_def)

lemma POST_weight:
  assumes "getStockManagementSetting d" and "ProductQuery \<notin> set (failing d)"
    and "InventoryQuery \<notin> set (failing d)"
    and "productId r = Some pid" and "pid \<noteq> []"
    and "find_product d pid = Some p" and "product_isWeightBased p"
    and "requestedWeight r = Some w"
    and "find_inventory d pid (variantId r) = Some row"
  shows "POST d (Body r) = Json (weight_result row r)"
  using assms by (auto simp: Let_def)

lemma POST_quantity_mode:
  assumes "getStockManagementSetting d" and "ProductQuery \<notin> set (failing d)"
    and "InventoryQuery \<notin> set (failing d)"
    and "productId r = Some pid" and "pid \<noteq> []"
    and "find_product d pid = Some p" and "\<not> product_isWeightBased p"
    and "requestedQuantity r = Some q"
    and "find_inventory d pid (variantId r) = Some row"
  shows "POST d (Body r) = Json (quantity_result row r)"
  using assms by (auto simp: Let_def)

text \<open>The hook, once the endpoint has answered that the request alone is available.\<close>

lemma addToCart_available:
  assumes "POST d (Body (check_body product quantity weightInGrams)) = Json result"
    and "available result"
  shows "addToCartWithToast d items product quantity weightInGrams =
         check_total result items product quantity weightInGrams"
  using assms by (simp add: addToCartWithToast_def)

lemma addToCart_unavailable:
  assumes "POST d (Body (check_body product quantity weightInGrams)) = Json result"
    and "\<not> available result" and "res_message result = Some m"
  shows "addToCartWithToast d items product quantity weightInGrams =
         InsufficientStock (ServerMessage m)"
  using assms by (simp add: addToCartWithToast_def)

lemma check_body_simps:
  "productId (check_body product quantity weightInGrams) = Some (p_id product)"
  "variantId (check_body product quantity weightInGrams) =
     (if truthy (p_variantId product) then p_variantId product else None)"
  "requestedQuantity (check_body product quantity weightInGrams) =
     (if p_stockManagementType product = Some ''weight'' then None else Some quantity)"
  "requestedWeight (check_body product quantity weightInGrams) =
     (if p_stockManagementType product = Some ''weight''
      then Some (weight_or_quantity weightInGrams quantity) else None)"
  by (simp_all add: check_body_def Let_def)

text \<open>The shop, looked up.\<close>

lemma shop_enabled: "getStockManagementSetting shop"
  by (simp add: getStockManagementSetting_def shop_def setting_on_def)

lemma shop_queries:
  "ProductQuery \<notin> set (failing shop)" "InventoryQuery \<notin> set (failing shop)"
  by (simp_all add: shop_def)

lemma shop_products:
  "find_product shop ''apple'' = Some apple_row"
  "find_product shop ''tea'' = Some tea_row"
  "find_product shop ''pear'' = Some pear_row"
  by (simp_all add: find_product_def shop_def apple_row_def tea_row_def pear_row_def)

lemma shop_inventory:
  "find_inventory shop ''apple'' None = Some apple_stock"
  "find_inventory shop ''tea'' None = Some tea_stock"
  "find_inventory shop ''pear'' None = None"
  by (simp_all add: find_inventory_def shop_def apple_stock_def tea_stock_def)

lemma shop_modes:
  "\<not> product_isWeightBased apple_row" "product_isWeightBased tea_row"
  "\<not> product_isWeightBased pear_row"
  by (simp_all add: product_isWeightBased_def isWeightBasedProduct_def apple_row_def
        tea_row_def pear_row_def)

lemma shop_amounts:
  "row_availableQuantity apple_stock = 5" "row_availableWeight tea_stock = 1000"
  by (simp_all add: row_availableQuantity_def row_availableWeight_def or_zero_def
        apple_stock_def tea_stock_def)

text \<open>Rounding leaves a safe integer as it is, so the arithmetic of the hook is exact
  on whole numbers.\<close>

lemma round_half_even_of_int: "round_half_even (of_int m) = m"
  by (simp add: round_half_even_def)

lemma double_of_int:
  assumes "\<bar>n\<bar> < 2 ^ 53"
  shows "double (of_int n) = of_int n"
proof (cases "n = 0")
  case True
  then show ?thesis by (simp add: double_def)
next
  case False
  define m where "m = \<bar>n\<bar>"
  define k where "k = nat (53 - bitlen m)"
  from False have m: "0 < m" by (simp add: m_def)
  from assms have "bitlen m \<le> 53"
    by (simp add: bitlen_le_iff_power m_def)
  moreover from m have "1 \<le> bitlen m"
    using bitlen_eq_zero_iff [of m] bitlen_nonneg [of m] by linarith
  ultimately have e: "max (bitlen m - 1 - 52) (- 1074) = - int k"
    by (simp add: k_def)
  have abs: "\<bar>of_int n :: rat\<bar> = of_int m"
    by (simp add: m_def)
  from m have "floor_log2 (of_int m) = bitlen m - 1"
    by (simp add: floor_log2_def)
  with e have e': "max (floor_log2 (of_int m) - 52) (- 1074) = - int k"
    by simp
  have p: "pow2 (- int k) = 1 / 2 ^ k"
    by (simp add: pow2_def)
  have q: "(of_int m :: rat) / (1 / 2 ^ k) = of_int (m * 2 ^ k)"
    by simp
  have "double (of_int n) =
        sgn (of_int n) * of_int (round_half_even (of_int m / pow2 (- int k))) * pow2 (- int k)"
    using False by (simp add: double_def Let_def e' abs)
  also have "\<dots> = sgn (of_int n) * of_int (m * 2 ^ k) * (1 / 2 ^ k)"
    by (simp only: p q round_half_even_of_int)
  also have "\<dots> = sgn (of_int n :: rat) * of_int m"
    by simp
  also have "\<dots> = of_int n"
    by (simp add: m_def sgn_if)
  finally show ?thesis .
qed

lemma double_safe_integer:
  assumes "isSafeInteger x"
  shows "double x = x"
proof -
  from assms have x: "x = of_int \<lfloor>x\<rfloor>" and "\<bar>x\<bar> < 2 ^ 53"
    by (simp_all add: isSafeInteger_def)
  then have "\<bar>(of_int \<lfloor>x\<rfloor> :: rat)\<bar> < 2 ^ 53"
    by simp
  then have "\<bar>\<lfloor>x\<rfloor>\<bar> < 2 ^ 53"
    by (metis of_int_abs of_int_less_numeral_power_cancel_iff)
  from double_of_int [OF this] x show ?thesis
    by simp
qed

lemma js_add_safe: "isSafeInteger (a + b) \<Longrightarrow> js_add a b = a + b"
  by (simp add: js_add_def double_safe_integer)

lemma js_sub_safe: "isSafeInteger (a - b) \<Longrightarrow> js_sub a b = a - b"
  by (simp add: js_sub_def double_safe_integer)

lemma js_mul_safe: "isSafeInteger (a * b) \<Longrightarrow> js_mul a b = a * b"
  by (simp add: js_mul_def double_safe_integer)

text \<open>What the hook does after the answer is in.\<close>

lemma check_total_quantity:
  assumes "p_stockManagementType product \<noteq> Some ''weight''"
    and "stockManagementEnabled result" and "availableQuantity result = Some a"
  shows "check_total result items product quantity weightInGrams =
         (if totalRequestedQuantity items product quantity > a
          then (if js_sub a (currentQuantityInCart items product) > 0
                then LimitedStock (js_sub a (currentQuantityInCart items product)) a
                       (currentQuantityInCart items product)
                else AlreadyAtMaximum (currentQuantityInCart items product))
          else AddedToCart product quantity None)"
  using assms by (simp add: check_total_def Let_def)

lemma check_total_weight:
  assumes "p_stockManagementType product = Some ''weight''"
    and "stockManagementEnabled result" and "availableWeight result = Some a"
  shows "check_total result items product quantity weightInGrams =
         (if totalRequestedWeight items product quantity weightInGrams > a
          then (if js_sub a (committedWeight items product) > 0
                then LimitedStock (js_sub a (committedWeight items product)) a
                       (committedWeight items product)
                else AlreadyAtMaximum (committedWeight items product))
          else AddedToCart product quantity weightInGrams)"
  using assms by (simp add: check_total_def Let_def)

text \<open>The hook on a counted, and on a weighed, product with an inventory record.\<close>

lemma addToCart_quantity:
  assumes "getStockManagementSetting d"
    and "ProductQuery \<notin> set (failing d)" and "InventoryQuery \<notin> set (failing d)"
    and "p_id product \<noteq> []" and "find_product d (p_id product) = Some p"
    and "\<not> product_isWeightBased p"
    and "p_stockManagementType product \<noteq> Some ''weight''"
    and "find_inventory d (p_id product) (p_variantId product) = Some row"
  shows "addToCartWithToast d items product quantity weightInGrams =
         (if row_availableQuantity row \<ge> quantity
          then (if totalRequestedQuantity items product quantity > row_availableQuantity row
                then (if js_sub (row_availableQuantity row)
                           (currentQuantityInCart items product) > 0
                      then LimitedStock
                             (js_sub (row_availableQuantity row)
                                (currentQuantityInCart items product))
                             (row_availableQuantity row)
                             (currentQuantityInCart items product)
                      else AlreadyAtMaximum (currentQuantityInCart items product))
                else AddedToCart product quantity None)
          else InsufficientStock (ServerMessage (OnlyUnits (row_availableQuantity row))))"
proof -
  let ?r = "check_body product quantity weightInGrams"
  have r: "productId ?r = Some (p_id product)" "requestedQuantity ?r = Some quantity"
    "find_inventory d (p_id product) (variantId ?r) = Some row"
    using assms(7,8) by (simp_all add: check_body_simps find_inventory_variant)
  have post: "POST d (Body ?r) = Json (quantity_result row ?r)"
    by (rule POST_quantity_mode [OF assms(1-3) r(1) assms(4,5,6) r(2,3)])
  have res: "stockManagementEnabled (quantity_result row ?r)"
    "availableQuantity (quantity_result row ?r) = Some (row_availableQuantity row)"
    by (simp_all add: quantity_result_def Let_def)
  show ?thesis
  proof (cases "row_availableQuantity row \<ge> quantity")
    case True
    then have av: "available (quantity_result row ?r)"
      by (simp add: quantity_result_def Let_def r(2) or_zero_Some)
    from True addToCart_available [OF post av] check_total_quantity [OF assms(7) res]
    show ?thesis by simp
  next
    case False
    then have "\<not> available (quantity_result row ?r)"
      and "res_message (quantity_result row ?r) = Some (OnlyUnits (row_availableQuantity row))"
      by (simp_all add: quantity_result_def Let_def r(2) or_zero_Some)
    from addToCart_unavailable [OF post this] False show ?thesis by simp
  qed
qed

lemma addToCart_weight:
  assumes "getStockManagementSetting d"
    and "ProductQuery \<notin> set (failing d)" and "InventoryQuery \<notin> set (failing d)"
    and "p_id product \<noteq> []" and "find_product d (p_id product) = Some p"
    and "product_isWeightBased p"
    and "p_stockManagementType product = Some ''weight''"
    and "find_inventory d (p_id product) (p_variantId product) = Some row"
  shows "addToCartWithToast d items product quantity weightInGrams =
         (if row_availableWeight row \<ge> weight_or_quantity weightInGrams quantity
          then (if totalRequestedWeight items product quantity weightInGrams
                     > row_availableWeight row
                then (if js_sub (row_availableWeight row) (committedWeight items product) > 0
                      then LimitedStock
                             (js_sub (row_availableWeight row)
                                (committedWeight items product))
                             (row_availableWeight row)
                             (committedWeight items product)
                      else AlreadyAtMaximum (committedWeight items product))
                else AddedToCart product quantity weightInGrams)
          else InsufficientStock (ServerMessage (OnlyGrams (row_availableWeight row))))"
proof -
  let ?r = "check_body product quantity weightInGrams"
  let ?w = "weight_or_quantity weightInGrams quantity"
  have r: "productId ?r = Some (p_id product)" "requestedWeight ?r = Some ?w"
    "find_inventory d (p_id product) (variantId ?r) = Some row"
    using assms(7,8) by (simp_all add: check_body_simps find_inventory_variant)
  have post: "POST d (Body ?r) = Json (weight_result row ?r)"
    by (rule POST_weight [OF assms(1-3) r(1) assms(4,5,6) r(2,3)])
  have res: "stockManagementEnabled (weight_result row ?r)"
    "availableWeight (weight_result row ?r) = Some (row_availableWeight row)"
    by (simp_all add: weight_result_def Let_def)
  show ?thesis
  proof (cases "row_availableWeight row \<ge> ?w")
    case True
    then have av: "available (weight_result row ?r)"
      by (simp add: weight_result_def Let_def r(2) or_zero_Some)
    from True addToCart_available [OF post av] check_total_weight [OF assms(7) res]
    show ?thesis by simp
  next
    case False
    then have "\<not> available (weight_result row ?r)"
      and "res_message (weight_result row ?r) = Some (OnlyGrams (row_availableWeight row))"
      by (simp_all add: weight_result_def Let_def r(2) or_zero_Some)
    from addToCart_unavailable [OF post this] False show ?thesis by simp
  qed
qed

text \<open>The totals of the hook on whole numbers.\<close>

lemma totalRequestedQuantity_safe:
  "isSafeInteger (currentQuantityInCart items product + quantity) \<Longrightarrow>
   totalRequestedQuantity items product quantity =
     currentQuantityInCart items product + quantity"
  by (simp add: totalRequestedQuantity_def js_add_safe)

lemma committedWeight_safe:
  "isSafeInteger (currentQuantityInCart items product * currentWeightInCart items product) \<Longrightarrow>
   committedWeight items product =
     currentQuantityInCart items product * currentWeightInCart items product"
  by (simp add: committedWeight_def js_mul_safe)

lemma totalRequestedWeight_safe:
  assumes "isSafeInteger
             (currentQuantityInCart items product * currentWeightInCart items product)"
    and "isSafeInteger
           (currentQuantityInCart items product * currentWeightInCart items product
              + weight_or_quantity weightInGrams quantity)"
  shows "totalRequestedWeight items product quantity weightInGrams =
           currentQuantityInCart items product * currentWeightInCart items product
             + weight_or_quantity weightInGrams quantity"
  using assms by (simp add: totalRequestedWeight_def committedWeight_safe js_add_safe)

text \<open>The carts and the sums of the concrete instances.\<close>

lemma shop_carts:
  "currentQuantityInCart (in_cart apple n None) apple = n"
  "currentQuantityInCart (in_cart tea 2 (Some 200)) tea = 2"
  "currentWeightInCart (in_cart tea 2 (Some 200)) tea = 200"
  by (simp_all add: currentQuantityInCart_def currentWeightInCart_def existingItem_def
        in_cart_def or_zero_def apple_def tea_def)

lemma shop_sums:
  "weight_or_quantity (Some 600) 1 = 600"
  "weight_or_quantity (Some 700) 1 = 700"
  "weight_or_quantity (Some 1001) 1 = 1001"
  "totalRequestedWeight (in_cart tea 2 (Some 200)) tea 1 (Some 600) = 1000"
  "totalRequestedWeight (in_cart tea 2 (Some 200)) tea 1 (Some 700) = 1100"
  "committedWeight (in_cart tea 2 (Some 200)) tea = 400"
  "js_sub 1000 400 = 600"
  "totalRequestedQuantity (in_cart apple 3 None) apple 2 = 5"
  "totalRequestedQuantity (in_cart apple 3 None) apple 5 = 8"
  "totalRequestedQuantity (in_cart apple 5 None) apple 1 = 6"
  "totalRequestedQuantity (in_cart apple 7 None) apple 1 = 8"
  "js_sub 5 3 = 2" "js_sub 5 5 = 0" "js_sub 5 7 = - 2"
  "isSafeInteger 5" "isSafeInteger 1000" "isSafeInteger 400" "isSafeInteger 8"
  "isSafeInteger 2" "isSafeInteger 1100" "isSafeInteger 600"
  by code_simp+



lemma POST_missing_amount:
  assumes "getStockManagementSetting d" and "ProductQuery \<notin> set (failing d)"
    and "productId r = Some pid" and "pid \<noteq> []"
    and "find_product d pid = Some p"
  shows "product_isWeightBased p \<Longrightarrow> requestedWeight r = None \<Longrightarrow>
           POST d (Body r) =
             Failure 400 ''Requested weight is required for weight-based products''"
    and "\<not> product_isWeightBased p \<Longrightarrow> requestedQuantity r = None \<Longrightarrow>
           POST d (Body r) =
             Failure 400 ''Requested quantity is required for quantity-based products''"
  using assms by (simp_all add: Let_def)





text \<open>The magic link lookup of the register endpoint.\<close>

lemma find_token_distinct:
  "distinct (map link_token ls) \<Longrightarrow> l \<in> set ls \<Longrightarrow>
   find (\<lambda>x. link_token x = link_token l) ls = Some l"
proof (induction ls)
  case Nil
  then show ?case by simp
next
  case (Cons x xs)
  then show ?case by (auto simp: rev_image_eqI)
qed

lemma isMagicLinkValid_first:
  "isMagicLinkValid d token \<longleftrightarrow>
     truthy token \<and>
     (\<exists>l. find (\<lambda>x. link_token x = the token) (globalMagicLink d) = Some l \<and>
          link_isEnabled l)"
  by (auto simp: isMagicLinkValid_def magicLinkData_def split: option.splits)

lemma isMagicLinkValid_distinct:
  assumes "distinct (map link_token (globalMagicLink d))"
  shows "isMagicLinkValid d token \<longleftrightarrow>
           truthy token \<and>
           (\<exists>l \<in> set (globalMagicLink d). link_token l = the token \<and> link_isEnabled l)"
proof
  assume "isMagicLinkValid d token"
  then obtain l where "truthy token"
    and f: "find (\<lambda>x. link_token x = the token) (globalMagicLink d) = Some l"
    and "link_isEnabled l"
    by (auto simp: isMagicLinkValid_first)
  moreover from f have "l \<in> set (globalMagicLink d)" "link_token l = the token"
    by (auto simp: find_Some_iff)
  ultimately show "truthy token \<and>
           (\<exists>l \<in> set (globalMagicLink d). link_token l = the token \<and> link_isEnabled l)"
    by blast
next
  assume "truthy token \<and>
           (\<exists>l \<in> set (globalMagicLink d). link_token l = the token \<and> link_isEnabled l)"
  then obtain l where t: "truthy token" and l: "l \<in> set (globalMagicLink d)"
    "link_token l = the token" "link_isEnabled l"
    by blast
  from find_token_distinct [OF assms l(1)] l(2)
  have "find (\<lambda>x. link_token x = the token) (globalMagicLink d) = Some l"
    by simp
  with t l(3) show "isMagicLinkValid d token"
    by (auto simp: isMagicLinkValid_first)
qed

lemma register_accepted:
  assumes "truthy (reg_email r)" and "truthy (reg_password r)" and "truthy (reg_name r)"
    and "existingUser d (the (reg_email r)) = None"
  shows "\<exists>d' mail u.
           register uuid1 uuid2 hash d r =
             (d', mail,
              if isMagicLinkValid d (reg_magicToken r)
              then Registered AutoApproved False (Some True)
              else Registered PendingApproval True None) \<and>
           users d' = users d @ [u] \<and>
           user_status u =
             (if isMagicLinkValid d (reg_magicToken r) then ''approved'' else ''pending'')"
  using assms
  by (cases "magicLinkData d (reg_magicToken r)")
     (simp_all add: register_def Let_def isMagicLinkValid_def)

text \<open>The registration desk, looked up.\<close>

lemma desk_facts:
  "distinct (map link_token (globalMagicLink desk))"
  "existingUser desk ''ann@example.org'' = None"
  "users desk = []"
  by (simp_all add: desk_def existingUser_def)

lemma applicant_facts:
  "truthy (reg_email (applicant t))" "truthy (reg_password (applicant t))"
  "truthy (reg_name (applicant t))" "the (reg_email (applicant t)) = ''ann@example.org''"
  "reg_magicToken (applicant t) = t"
  by (simp_all add: applicant_def)

lemma desk_links:
  "(\<exists>l \<in> set (globalMagicLink desk). link_token l = ''open'' \<and> link_isEnabled l)"
  "\<not> (\<exists>l \<in> set (globalMagicLink desk). link_token l = ''shut'' \<and> link_isEnabled l)"
  by (simp_all add: desk_def)

section \<open>Stock management switched off\<close>

text \<open>
  Claim C1. When the stock management setting reads as disabled, the endpoint answers
  every request that names a product with \<open>available = true\<close> and the sentinel 999999 as
  available quantity and as available weight, whatever the product's mode, the requested
  amount and the inventory table hold; and the hook then adds to the cart whatever the
  cart already holds, so that the total counts as sufficient too.
\<close>

theorem disabled_policy_allows_every_request:
  assumes "\<not> getStockManagementSetting d"
  shows "(truthy (productId r) \<longrightarrow>
            (\<exists>result. POST d (Body r) = Json result \<and> available result \<and>
               \<not> stockManagementEnabled result \<and>
               availableQuantity result = Some 999999 \<and>
               availableWeight result = Some 999999)) \<and>
         (p_id product \<noteq> [] \<longrightarrow>
            addToCartWithToast d items product quantity weightInGrams =
              AddedToCart product quantity
                (if p_stockManagementType product = Some ''weight'' then weightInGrams
                 else None))"
proof (intro conjI impI)
  assume "truthy (productId r)"
  with assms have "POST d (Body r) = Json (disabled_result r)"
    by (rule POST_disabled)
  then show "\<exists>result. POST d (Body r) = Json result \<and> available result \<and>
               \<not> stockManagementEnabled result \<and>
               availableQuantity result = Some 999999 \<and>
               availableWeight result = Some 999999"
    by (simp add: disabled_result_def)
next
  assume "p_id product \<noteq> []"
  then have "truthy (productId (check_body product quantity weightInGrams))"
    by (simp add: check_body_simps)
  with assms
  have post: "POST d (Body (check_body product quantity weightInGrams)) =
              Json (disabled_result (check_body product quantity weightInGrams))"
    by (rule POST_disabled)
  have "addToCartWithToast d items product quantity weightInGrams =
        check_total (disabled_result (check_body product quantity weightInGrams))
          items product quantity weightInGrams"
    by (rule addToCart_available [OF post]) (simp add: disabled_result_def)
  then show "addToCartWithToast d items product quantity weightInGrams =
              AddedToCart product quantity
                (if p_stockManagementType product = Some ''weight'' then weightInGrams
                 else None)"
    by (simp add: check_total_def disabled_result_def Let_def)
qed

theorem disabled_policy_allows_every_request_witness:
  "\<not> getStockManagementSetting shop_unset \<and>
   truthy (productId (weight_request ''pear'' 5000)) \<and>
   p_id pear \<noteq> [] \<and>
   (\<exists>result. POST shop_unset (Body (weight_request ''pear'' 5000)) = Json result \<and>
      available result \<and> \<not> stockManagementEnabled result \<and>
      availableQuantity result = Some 999999 \<and> availableWeight result = Some 999999) \<and>
   addToCartWithToast shop_unset (in_cart pear 7 None) pear 100 None =
     AddedToCart pear 100 None"
proof -
  have off: "\<not> getStockManagementSetting shop_unset"
    by (simp add: getStockManagementSetting_def shop_unset_def shop_def)
  have pid: "truthy (productId (weight_request ''pear'' 5000))"
    by (simp add: weight_request_def)
  have pear: "p_id pear \<noteq> []" "p_stockManagementType pear \<noteq> Some ''weight''"
    by (simp_all add: pear_def)
  from disabled_policy_allows_every_request
         [OF off, of "weight_request ''pear'' 5000" pear "in_cart pear 7 None" 100 None]
       off pid pear
  show ?thesis by simp
qed

text \<open>
  Claim C9. When the \<^verbatim>\<open>stock_management_enabled\<close> row is absent, or the settings query
  throws, \<open>getStockManagementSetting\<close> is false, and the endpoint answers every request
  that names a product with \<open>available = true\<close> and the sentinel 999999: no error is
  produced and no stock is looked at.
\<close>

theorem missing_setting_bypasses_check:
  assumes "SettingsQuery \<in> set (failing d) \<or>
           find (\<lambda>s. setting_key s = ''stock_management_enabled'') (settings d) = None"
    and "truthy (productId r)"
  shows "\<not> getStockManagementSetting d \<and>
         (\<exists>result. POST d (Body r) = Json result \<and> available result \<and>
            \<not> stockManagementEnabled result \<and>
            availableQuantity result = Some 999999 \<and>
            availableWeight result = Some 999999)"
proof -
  from assms(1) have off: "\<not> getStockManagementSetting d"
    by (auto simp: getStockManagementSetting_def)
  from off assms(2) have "POST d (Body r) = Json (disabled_result r)"
    by (rule POST_disabled)
  with off show ?thesis
    by (simp add: disabled_result_def)
qed

theorem missing_setting_bypasses_check_witness:
  "find (\<lambda>s. setting_key s = ''stock_management_enabled'') (settings shop_unset) = None \<and>
   SettingsQuery \<in> set (failing shop_unreadable) \<and>
   truthy (productId (quantity_request ''apple'' 6)) \<and>
   (\<exists>result. POST shop_unset (Body (quantity_request ''apple'' 6)) = Json result \<and>
      available result \<and> availableQuantity result = Some 999999 \<and>
      availableWeight result = Some 999999) \<and>
   (\<exists>result. POST shop_unreadable (Body (quantity_request ''apple'' 6)) = Json result \<and>
      available result \<and> availableQuantity result = Some 999999 \<and>
      availableWeight result = Some 999999)"
proof -
  have absent:
    "find (\<lambda>s. setting_key s = ''stock_management_enabled'') (settings shop_unset) = None"
    by (simp add: shop_unset_def shop_def)
  have throws: "SettingsQuery \<in> set (failing shop_unreadable)"
    by (simp add: shop_unreadable_def shop_def)
  have pid: "truthy (productId (quantity_request ''apple'' 6))"
    by (simp add: quantity_request_def)
  from missing_setting_bypasses_check [OF disjI2 [OF absent] pid]
       missing_setting_bypasses_check [OF disjI1 [OF throws] pid]
       absent throws pid
  show ?thesis by blast
qed

section \<open>No inventory record\<close>

text \<open>
  Claim C4. With stock management enabled, an existing product and no inventory record for
  the product and variant, both handlers answer \<open>available = false\<close> with 0 as the
  available amount (the handler that knows both modes reports 0 for the quantity and for
  the weight) and the message that no record was found, whatever amount is requested; the
  hook shows that rejection and adds nothing to the cart, so nothing more can be added
  (the answer itself has no headroom field).
\<close>

theorem no_inventory_record_is_unavailable:
  assumes "getStockManagementSetting d"
    and "ProductQuery \<notin> set (failing d)" and "InventoryQuery \<notin> set (failing d)"
    and "pid \<noteq> []" and "find_product d pid = Some p"
  shows "(productId r = Some pid \<and> find_inventory d pid (variantId r) = None \<and>
          (if product_isWeightBased p then requestedWeight r \<noteq> None
           else requestedQuantity r \<noteq> None) \<longrightarrow>
            (\<exists>result. POST d (Body r) = Json result \<and> \<not> available result \<and>
               \<not> success result \<and> availableQuantity result = Some 0 \<and>
               availableWeight result = Some 0 \<and>
               res_message result = Some NoInventoryRecord)) \<and>
         (productId r = Some pid \<and> find_inventory d pid (variantId r) = None \<and>
          truthy_num (requestedQuantity r) \<longrightarrow>
            (\<exists>result. POST_quantity d (Body r) = Json result \<and> \<not> available result \<and>
               \<not> success result \<and> availableQuantity result = Some 0 \<and>
               res_message result = Some NoInventoryRecord)) \<and>
         (p_id product = pid \<and> find_inventory d pid (p_variantId product) = None \<and>
          (product_isWeightBased p \<longleftrightarrow> p_stockManagementType product = Some ''weight'') \<longrightarrow>
            addToCartWithToast d items product quantity weightInGrams =
              InsufficientStock (ServerMessage NoInventoryRecord))"
proof (intro conjI impI)
  assume r: "productId r = Some pid \<and> find_inventory d pid (variantId r) = None \<and>
          (if product_isWeightBased p then requestedWeight r \<noteq> None
           else requestedQuantity r \<noteq> None)"
  then have r1: "productId r = Some pid"
    and r2: "find_inventory d pid (variantId r) = None"
    and r3: "if product_isWeightBased p then requestedWeight r \<noteq> None
             else requestedQuantity r \<noteq> None"
    by simp_all
  have "POST d (Body r) = Json (no_record_result (product_isWeightBased p) r)"
    by (rule POST_no_record [OF assms(1-3) r1 assms(4,5) r3 r2])
  then show "\<exists>result. POST d (Body r) = Json result \<and> \<not> available result \<and>
               \<not> success result \<and> availableQuantity result = Some 0 \<and>
               availableWeight result = Some 0 \<and>
               res_message result = Some NoInventoryRecord"
    by (simp add: no_record_result_def)
next
  assume "productId r = Some pid \<and> find_inventory d pid (variantId r) = None \<and>
          truthy_num (requestedQuantity r)"
  with assms
  show "\<exists>result. POST_quantity d (Body r) = Json result \<and> \<not> available result \<and>
               \<not> success result \<and> availableQuantity result = Some 0 \<and>
               res_message result = Some NoInventoryRecord"
    by simp
next
  let ?r = "check_body product quantity weightInGrams"
  assume c: "p_id product = pid \<and> find_inventory d pid (p_variantId product) = None \<and>
          (product_isWeightBased p \<longleftrightarrow> p_stockManagementType product = Some ''weight'')"
  from c have c1: "productId ?r = Some pid"
    and c3: "if product_isWeightBased p then requestedWeight ?r \<noteq> None
             else requestedQuantity ?r \<noteq> None"
    and c2: "find_inventory d pid (variantId ?r) = None"
    by (simp_all add: check_body_simps find_inventory_variant)
  have "POST d (Body ?r) = Json (no_record_result (product_isWeightBased p) ?r)"
    by (rule POST_no_record [OF assms(1-3) c1 assms(4,5) c3 c2])
  then show "addToCartWithToast d items product quantity weightInGrams =
              InsufficientStock (ServerMessage NoInventoryRecord)"
    by (rule addToCart_unavailable) (simp_all add: no_record_result_def)
qed

theorem no_inventory_record_is_unavailable_witness:
  "getStockManagementSetting shop \<and> find_product shop ''pear'' = Some pear_row \<and>
   find_inventory shop ''pear'' None = None \<and>
   (\<exists>result. POST shop (Body (quantity_request ''pear'' 3)) = Json result \<and>
      \<not> available result \<and> availableQuantity result = Some 0 \<and>
      availableWeight result = Some 0 \<and> res_message result = Some NoInventoryRecord) \<and>
   (\<exists>result. POST_quantity shop (Body (quantity_request ''pear'' 3)) = Json result \<and>
      \<not> available result \<and> availableQuantity result = Some 0) \<and>
   addToCartWithToast shop [] pear 3 None =
     InsufficientStock (ServerMessage NoInventoryRecord)"
proof -
  have r: "productId (quantity_request ''pear'' 3) = Some ''pear''"
    "variantId (quantity_request ''pear'' 3) = None"
    "requestedQuantity (quantity_request ''pear'' 3) = Some 3"
    by (simp_all add: quantity_request_def)
  have p: "p_id pear = ''pear''" "p_variantId pear = None"
    "p_stockManagementType pear = None"
    by (simp_all add: pear_def)
  from no_inventory_record_is_unavailable
         [OF shop_enabled shop_queries _ shop_products(3),
          of "quantity_request ''pear'' 3" pear "[]" 3 None]
       shop_enabled shop_products(3) shop_inventory(3) shop_modes(3) r p
  show ?thesis by (auto simp del: POST.simps POST_quantity.simps)
qed

section \<open>An inventory record exists\<close>

text \<open>
  Claim C2, as stated, fails for weights that are not whole numbers: the hook adds and
  compares in double arithmetic. With 3.1 g of tea in stock, three units of 0.8 g in the
  cart and 0.7 g requested (each the double nearest to the decimal), what the cart holds
  plus the request equals the stock exactly, yet the hook computes 3.1000000000000005,
  finds it above the stock and shows "Limited stock".
\<close>

theorem exact_total_rounded_above_stock_counterexample:
  "getStockManagementSetting (tea_shop (double (31 / 10))) \<and>
   find_inventory (tea_shop (double (31 / 10))) ''tea'' None =
     Some (tea_stock\<lparr>inv_availableWeight := Some (double (31 / 10))\<rparr>) \<and>
   row_availableWeight (tea_stock\<lparr>inv_availableWeight := Some (double (31 / 10))\<rparr>) =
     double (31 / 10) \<and>
   currentQuantityInCart (in_cart tea 3 (Some (double (4 / 5)))) tea = 3 \<and>
   currentWeightInCart (in_cart tea 3 (Some (double (4 / 5)))) tea = double (4 / 5) \<and>
   weight_or_quantity (Some (double (7 / 10))) 1 = double (7 / 10) \<and>
   3 * double (4 / 5) + double (7 / 10) = double (31 / 10) \<and>
   addToCartWithToast (tea_shop (double (31 / 10))) (in_cart tea 3 (Some (double (4 / 5))))
       tea 1 (Some (double (7 / 10))) =
     LimitedStock (js_sub (double (31 / 10)) (js_mul 3 (double (4 / 5)))) (double (31 / 10))
       (js_mul 3 (double (4 / 5)))"
  by code_simp

text \<open>
  Claim C2, amended. With stock management enabled and an inventory record found, the
  endpoint answers \<open>available\<close> exactly when the available amount is at least the
  requested one: the available weight against the requested weight for a weight-based
  product, the available quantity against the requested quantity otherwise. The cart plays
  no part: the endpoint never sees it. The bound is inclusive on both sides: a request
  equal to the available amount is available, and when the request alone fits and the
  total the hook computes (what the cart holds plus the request, in double arithmetic)
  equals the available amount, the hook adds to the cart. On whole numbers the arithmetic
  is exact: there, when what the cart holds plus the request equals the available amount,
  the hook adds to the cart.
\<close>

theorem available_iff_amount_covers_request:
  assumes "getStockManagementSetting d"
    and "ProductQuery \<notin> set (failing d)" and "InventoryQuery \<notin> set (failing d)"
    and "pid \<noteq> []" and "find_product d pid = Some p"
  shows "(product_isWeightBased p \<and> productId r = Some pid \<and>
          requestedWeight r = Some w \<and> find_inventory d pid (variantId r) = Some row \<longrightarrow>
            (\<exists>result. POST d (Body r) = Json result \<and>
               availableWeight result = Some (row_availableWeight row) \<and>
               (available result \<longleftrightarrow> row_availableWeight row \<ge> w))) \<and>
         (\<not> product_isWeightBased p \<and> productId r = Some pid \<and>
          requestedQuantity r = Some q \<and> find_inventory d pid (variantId r) = Some row \<longrightarrow>
            (\<exists>result. POST d (Body r) = Json result \<and>
               availableQuantity result = Some (row_availableQuantity row) \<and>
               (available result \<longleftrightarrow> row_availableQuantity row \<ge> q))) \<and>
         (product_isWeightBased p \<and> p_id product = pid \<and>
          p_stockManagementType product = Some ''weight'' \<and>
          find_inventory d pid (p_variantId product) = Some row \<and>
          weight_or_quantity weightInGrams quantity \<le> row_availableWeight row \<and>
          totalRequestedWeight items product quantity weightInGrams =
            row_availableWeight row \<longrightarrow>
            addToCartWithToast d items product quantity weightInGrams =
              AddedToCart product quantity weightInGrams) \<and>
         (product_isWeightBased p \<and> p_id product = pid \<and>
          p_stockManagementType product = Some ''weight'' \<and>
          find_inventory d pid (p_variantId product) = Some row \<and>
          isSafeInteger
            (currentQuantityInCart items product * currentWeightInCart items product) \<and>
          isSafeInteger (row_availableWeight row) \<and>
          0 \<le> currentQuantityInCart items product * currentWeightInCart items product \<and>
          currentQuantityInCart items product * currentWeightInCart items product
            + weight_or_quantity weightInGrams quantity = row_availableWeight row \<longrightarrow>
            addToCartWithToast d items product quantity weightInGrams =
              AddedToCart product quantity weightInGrams) \<and>
         (\<not> product_isWeightBased p \<and> p_id product = pid \<and>
          p_stockManagementType product \<noteq> Some ''weight'' \<and>
          find_inventory d pid (p_variantId product) = Some row \<and>
          quantity \<le> row_availableQuantity row \<and>
          totalRequestedQuantity items product quantity = row_availableQuantity row \<longrightarrow>
            addToCartWithToast d items product quantity weightInGrams =
              AddedToCart product quantity None) \<and>
         (\<not> product_isWeightBased p \<and> p_id product = pid \<and>
          p_stockManagementType product \<noteq> Some ''weight'' \<and>
          find_inventory d pid (p_variantId product) = Some row \<and>
          isSafeInteger (row_availableQuantity row) \<and>
          0 \<le> currentQuantityInCart items product \<and>
          currentQuantityInCart items product + quantity = row_availableQuantity row \<longrightarrow>
            addToCartWithToast d items product quantity weightInGrams =
              AddedToCart product quantity None)"
proof (intro conjI impI)
  assume h: "product_isWeightBased p \<and> productId r = Some pid \<and>
          requestedWeight r = Some w \<and> find_inventory d pid (variantId r) = Some row"
  then have "POST d (Body r) = Json (weight_result row r)"
    using assms by (intro POST_weight [where pid = pid and p = p and w = w]) simp_all
  with h show "\<exists>result. POST d (Body r) = Json result \<and>
               availableWeight result = Some (row_availableWeight row) \<and>
               (available result \<longleftrightarrow> row_availableWeight row \<ge> w)"
    by (simp add: weight_result_def Let_def or_zero_Some)
next
  assume h: "\<not> product_isWeightBased p \<and> productId r = Some pid \<and>
          requestedQuantity r = Some q \<and> find_inventory d pid (variantId r) = Some row"
  then have "POST d (Body r) = Json (quantity_result row r)"
    using assms by (intro POST_quantity_mode [where pid = pid and p = p and q = q]) simp_all
  with h show "\<exists>result. POST d (Body r) = Json result \<and>
               availableQuantity result = Some (row_availableQuantity row) \<and>
               (available result \<longleftrightarrow> row_availableQuantity row \<ge> q)"
    by (simp add: quantity_result_def Let_def or_zero_Some)
next
  assume "product_isWeightBased p \<and> p_id product = pid \<and>
          p_stockManagementType product = Some ''weight'' \<and>
          find_inventory d pid (p_variantId product) = Some row \<and>
          weight_or_quantity weightInGrams quantity \<le> row_availableWeight row \<and>
          totalRequestedWeight items product quantity weightInGrams =
            row_availableWeight row"
  with assms show "addToCartWithToast d items product quantity weightInGrams =
              AddedToCart product quantity weightInGrams"
    by (simp add: addToCart_weight [where p = p])
next
  assume h: "product_isWeightBased p \<and> p_id product = pid \<and>
          p_stockManagementType product = Some ''weight'' \<and>
          find_inventory d pid (p_variantId product) = Some row \<and>
          isSafeInteger
            (currentQuantityInCart items product * currentWeightInCart items product) \<and>
          isSafeInteger (row_availableWeight row) \<and>
          0 \<le> currentQuantityInCart items product * currentWeightInCart items product \<and>
          currentQuantityInCart items product * currentWeightInCart items product
            + weight_or_quantity weightInGrams quantity = row_availableWeight row"
  then have "totalRequestedWeight items product quantity weightInGrams =
             row_availableWeight row"
    by (simp add: totalRequestedWeight_safe)
  moreover from h
  have "weight_or_quantity weightInGrams quantity \<le> row_availableWeight row"
    by linarith
  ultimately show "addToCartWithToast d items product quantity weightInGrams =
              AddedToCart product quantity weightInGrams"
    using h assms by (simp add: addToCart_weight [where p = p])
next
  assume "\<not> product_isWeightBased p \<and> p_id product = pid \<and>
          p_stockManagementType product \<noteq> Some ''weight'' \<and>
          find_inventory d pid (p_variantId product) = Some row \<and>
          quantity \<le> row_availableQuantity row \<and>
          totalRequestedQuantity items product quantity = row_availableQuantity row"
  with assms show "addToCartWithToast d items product quantity weightInGrams =
              AddedToCart product quantity None"
    by (simp add: addToCart_quantity [where p = p])
next
  assume h: "\<not> product_isWeightBased p \<and> p_id product = pid \<and>
          p_stockManagementType product \<noteq> Some ''weight'' \<and>
          find_inventory d pid (p_variantId product) = Some row \<and>
          isSafeInteger (row_availableQuantity row) \<and>
          0 \<le> currentQuantityInCart items product \<and>
          currentQuantityInCart items product + quantity = row_availableQuantity row"
  then have "totalRequestedQuantity items product quantity = row_availableQuantity row"
    by (simp add: totalRequestedQuantity_safe)
  moreover from h have "quantity \<le> row_availableQuantity row"
    by linarith
  ultimately show "addToCartWithToast d items product quantity weightInGrams =
              AddedToCart product quantity None"
    using h assms by (simp add: addToCart_quantity [where p = p])
qed

theorem available_iff_amount_covers_request_witness:
  "getStockManagementSetting shop \<and>
   find_product shop ''tea'' = Some tea_row \<and> product_isWeightBased tea_row \<and>
   find_inventory shop ''tea'' None = Some tea_stock \<and>
   row_availableWeight tea_stock = 1000 \<and> isSafeInteger 1000 \<and>
   (\<exists>result. POST shop (Body (weight_request ''tea'' 1000)) = Json result \<and>
      availableWeight result = Some 1000 \<and> available result) \<and>
   weight_or_quantity (Some 600) 1 \<le> 1000 \<and>
   totalRequestedWeight (in_cart tea 2 (Some 200)) tea 1 (Some 600) = 1000 \<and>
   isSafeInteger
     (currentQuantityInCart (in_cart tea 2 (Some 200)) tea
        * currentWeightInCart (in_cart tea 2 (Some 200)) tea) \<and>
   currentQuantityInCart (in_cart tea 2 (Some 200)) tea
     * currentWeightInCart (in_cart tea 2 (Some 200)) tea + weight_or_quantity (Some 600) 1
     = 1000 \<and>
   addToCartWithToast shop (in_cart tea 2 (Some 200)) tea 1 (Some 600) =
     AddedToCart tea 1 (Some 600) \<and>
   find_product shop ''apple'' = Some apple_row \<and> \<not> product_isWeightBased apple_row \<and>
   find_inventory shop ''apple'' None = Some apple_stock \<and>
   row_availableQuantity apple_stock = 5 \<and> isSafeInteger 5 \<and>
   (\<exists>result. POST shop (Body (quantity_request ''apple'' 5)) = Json result \<and>
      availableQuantity result = Some 5 \<and> available result) \<and>
   (\<exists>result. POST shop (Body (quantity_request ''apple'' 6)) = Json result \<and>
      \<not> available result) \<and>
   totalRequestedQuantity (in_cart apple 3 None) apple 2 = 5 \<and>
   currentQuantityInCart (in_cart apple 3 None) apple + 2 = 5 \<and>
   addToCartWithToast shop (in_cart apple 3 None) apple 2 None = AddedToCart apple 2 None"
proof -
  have rw: "productId (weight_request ''tea'' 1000) = Some ''tea''"
    "variantId (weight_request ''tea'' 1000) = None"
    "requestedWeight (weight_request ''tea'' 1000) = Some 1000"
    by (simp_all add: weight_request_def)
  have rq: "productId (quantity_request ''apple'' n) = Some ''apple''"
    "variantId (quantity_request ''apple'' n) = None"
    "requestedQuantity (quantity_request ''apple'' n) = Some n" for n
    by (simp_all add: quantity_request_def)
  have p: "p_id tea = ''tea''" "p_variantId tea = None"
    "p_stockManagementType tea = Some ''weight''"
    "p_id apple = ''apple''" "p_variantId apple = None"
    "p_stockManagementType apple = Some ''quantity''"
    by (simp_all add: tea_def apple_def)
  note t = available_iff_amount_covers_request
             [OF shop_enabled shop_queries _ shop_products(2)]
  note a = available_iff_amount_covers_request
             [OF shop_enabled shop_queries _ shop_products(1)]
  from t [where r = "weight_request ''tea'' 1000" and w = 1000 and row = tea_stock
            and product = tea and items = "in_cart tea 2 (Some 200)"
            and weightInGrams = "Some 600" and quantity = 1]
       a [where r = "quantity_request ''apple'' 5" and q = 5 and row = apple_stock
            and product = apple and items = "in_cart apple 3 None"
            and weightInGrams = None and quantity = 2]
       a [where r = "quantity_request ''apple'' 6" and q = 6 and row = apple_stock
            and product = apple and items = "in_cart apple 3 None"
            and weightInGrams = None and quantity = 2]
       shop_enabled shop_products shop_inventory shop_modes shop_amounts rw rq p
       shop_carts shop_sums
  show ?thesis by (auto simp del: POST.simps)
qed

text \<open>
  Claim C3, as stated, fails where the request alone exceeds the available amount: the
  hook returns on \<^verbatim>\<open>!result.available\<close> before it looks at the cart. With 5 apples in
  stock and 5 in the cart, a request for 6 more has a total above the stock and a headroom
  of \<open>5 - 5 = 0\<close>, yet the toast is "Insufficient stock", not "Already at maximum". It
  fails also for weights that are not whole numbers, the headroom being computed in
  double arithmetic: with 10.8 g of tea in stock, three units of 3.6 g in the cart and
  0.1 g requested, the available weight minus what the cart holds is positive, yet the
  hook computes a headroom of 0 and shows "Already at maximum".
\<close>

theorem rejected_request_is_not_at_maximum_counterexample:
  "getStockManagementSetting shop \<and>
   find_inventory shop ''apple'' None = Some apple_stock \<and>
   row_availableQuantity apple_stock = 5 \<and>
   currentQuantityInCart (in_cart apple 5 None) apple = 5 \<and>
   \<not> (5 + 6 \<le> row_availableQuantity apple_stock) \<and>
   row_availableQuantity apple_stock - currentQuantityInCart (in_cart apple 5 None) apple \<le> 0 \<and>
   addToCartWithToast shop (in_cart apple 5 None) apple 6 None =
     InsufficientStock (ServerMessage (OnlyUnits 5)) \<and>
   addToCartWithToast shop (in_cart apple 5 None) apple 6 None \<noteq> AlreadyAtMaximum 5 \<and>
   find_inventory (tea_shop (double (54 / 5))) ''tea'' None =
     Some (tea_stock\<lparr>inv_availableWeight := Some (double (54 / 5))\<rparr>) \<and>
   row_availableWeight (tea_stock\<lparr>inv_availableWeight := Some (double (54 / 5))\<rparr>) =
     double (54 / 5) \<and>
   currentQuantityInCart (in_cart tea 3 (Some (double (18 / 5)))) tea = 3 \<and>
   currentWeightInCart (in_cart tea 3 (Some (double (18 / 5)))) tea = double (18 / 5) \<and>
   weight_or_quantity (Some (double (1 / 10))) 1 = double (1 / 10) \<and>
   double (1 / 10) \<le> double (54 / 5) \<and>
   \<not> (3 * double (18 / 5) + double (1 / 10) \<le> double (54 / 5)) \<and>
   0 < double (54 / 5) - 3 * double (18 / 5) \<and>
   addToCartWithToast (tea_shop (double (54 / 5))) (in_cart tea 3 (Some (double (18 / 5))))
       tea 1 (Some (double (1 / 10))) =
     AlreadyAtMaximum (js_mul 3 (double (18 / 5)))"
proof -
  have rounded:
    "find_inventory (tea_shop (double (54 / 5))) ''tea'' None =
       Some (tea_stock\<lparr>inv_availableWeight := Some (double (54 / 5))\<rparr>) \<and>
     row_availableWeight (tea_stock\<lparr>inv_availableWeight := Some (double (54 / 5))\<rparr>) =
       double (54 / 5) \<and>
     currentQuantityInCart (in_cart tea 3 (Some (double (18 / 5)))) tea = 3 \<and>
     currentWeightInCart (in_cart tea 3 (Some (double (18 / 5)))) tea = double (18 / 5) \<and>
     weight_or_quantity (Some (double (1 / 10))) 1 = double (1 / 10) \<and>
     double (1 / 10) \<le> double (54 / 5) \<and>
     \<not> (3 * double (18 / 5) + double (1 / 10) \<le> double (54 / 5)) \<and>
     0 < double (54 / 5) - 3 * double (18 / 5) \<and>
     addToCartWithToast (tea_shop (double (54 / 5))) (in_cart tea 3 (Some (double (18 / 5))))
         tea 1 (Some (double (1 / 10))) =
       AlreadyAtMaximum (js_mul 3 (double (18 / 5)))"
    by code_simp
  have cart: "currentQuantityInCart (in_cart apple 5 None) apple = 5"
    by (simp add: currentQuantityInCart_def existingItem_def in_cart_def or_zero_def)
  have p: "p_id apple = ''apple''" "p_variantId apple = None"
    "p_stockManagementType apple \<noteq> Some ''weight''"
    by (simp_all add: apple_def)
  have "addToCartWithToast shop (in_cart apple 5 None) apple 6 None =
        InsufficientStock (ServerMessage (OnlyUnits 5))"
    using addToCart_quantity [of shop apple apple_row apple_stock "in_cart apple 5 None" 6 None]
      shop_enabled shop_queries shop_products(1) shop_inventory(1) shop_modes(1)
      shop_amounts(1) p
    by simp
  with shop_enabled shop_inventory(1) shop_amounts(1) cart rounded show ?thesis
    by simp
qed

text \<open>
  Claim C3, amended. With stock management enabled and an inventory record found, when the
  request alone fits the available amount but the total the hook computes (what the cart
  holds plus the request) exceeds it, the hook computes the headroom as the available
  amount minus what the cart holds (the unit count for a counted product, unit count
  times weight per unit for a weighed one; the difference may be negative), all in double
  arithmetic, and shows "Limited stock" with that headroom when it is positive, "Already
  at maximum" when it is not. On whole numbers the arithmetic is exact, and the headroom
  is that difference itself. When the request alone exceeds the available amount, the
  hook shows "Insufficient stock" with the available amount, whatever the headroom.
\<close>

theorem headroom_and_reason_when_request_fits:
  assumes "getStockManagementSetting d"
    and "ProductQuery \<notin> set (failing d)" and "InventoryQuery \<notin> set (failing d)"
    and "p_id product \<noteq> []" and "find_product d (p_id product) = Some p"
    and "find_inventory d (p_id product) (p_variantId product) = Some row"
    and "product_isWeightBased p \<longleftrightarrow> p_stockManagementType product = Some ''weight''"
  shows "(\<not> product_isWeightBased p \<and> quantity \<le> row_availableQuantity row \<and>
          totalRequestedQuantity items product quantity > row_availableQuantity row \<longrightarrow>
            addToCartWithToast d items product quantity weightInGrams =
              (if js_sub (row_availableQuantity row) (currentQuantityInCart items product) > 0
               then LimitedStock
                      (js_sub (row_availableQuantity row)
                         (currentQuantityInCart items product))
                      (row_availableQuantity row) (currentQuantityInCart items product)
               else AlreadyAtMaximum (currentQuantityInCart items product))) \<and>
         (\<not> product_isWeightBased p \<and> quantity \<le> row_availableQuantity row \<and>
          isSafeInteger (currentQuantityInCart items product + quantity) \<and>
          isSafeInteger (row_availableQuantity row - currentQuantityInCart items product) \<and>
          currentQuantityInCart items product + quantity > row_availableQuantity row \<longrightarrow>
            addToCartWithToast d items product quantity weightInGrams =
              (if row_availableQuantity row - currentQuantityInCart items product > 0
               then LimitedStock
                      (row_availableQuantity row - currentQuantityInCart items product)
                      (row_availableQuantity row) (currentQuantityInCart items product)
               else AlreadyAtMaximum (currentQuantityInCart items product))) \<and>
         (product_isWeightBased p \<and>
          weight_or_quantity weightInGrams quantity \<le> row_availableWeight row \<and>
          totalRequestedWeight items product quantity weightInGrams
            > row_availableWeight row \<longrightarrow>
            addToCartWithToast d items product quantity weightInGrams =
              (if js_sub (row_availableWeight row) (committedWeight items product) > 0
               then LimitedStock
                      (js_sub (row_availableWeight row) (committedWeight items product))
                      (row_availableWeight row) (committedWeight items product)
               else AlreadyAtMaximum (committedWeight items product))) \<and>
         (product_isWeightBased p \<and>
          weight_or_quantity weightInGrams quantity \<le> row_availableWeight row \<and>
          isSafeInteger
            (currentQuantityInCart items product * currentWeightInCart items product) \<and>
          isSafeInteger
            (currentQuantityInCart items product * currentWeightInCart items product
               + weight_or_quantity weightInGrams quantity) \<and>
          isSafeInteger
            (row_availableWeight row
               - currentQuantityInCart items product * currentWeightInCart items product) \<and>
          currentQuantityInCart items product * currentWeightInCart items product
            + weight_or_quantity weightInGrams quantity > row_availableWeight row \<longrightarrow>
            addToCartWithToast d items product quantity weightInGrams =
              (if row_availableWeight row
                    - currentQuantityInCart items product * currentWeightInCart items product
                  > 0
               then LimitedStock
                      (row_availableWeight row
                         - currentQuantityInCart items product
                             * currentWeightInCart items product)
                      (row_availableWeight row)
                      (currentQuantityInCart items product
                         * currentWeightInCart items product)
               else AlreadyAtMaximum
                      (currentQuantityInCart items product
                         * currentWeightInCart items product))) \<and>
         (\<not> product_isWeightBased p \<and> quantity > row_availableQuantity row \<longrightarrow>
            addToCartWithToast d items product quantity weightInGrams =
              InsufficientStock (ServerMessage (OnlyUnits (row_availableQuantity row)))) \<and>
         (product_isWeightBased p \<and>
          weight_or_quantity weightInGrams quantity > row_availableWeight row \<longrightarrow>
            addToCartWithToast d items product quantity weightInGrams =
              InsufficientStock (ServerMessage (OnlyGrams (row_availableWeight row))))"
  using assms
  by (simp add: addToCart_quantity [where p = p] addToCart_weight [where p = p]
        totalRequestedQuantity_safe totalRequestedWeight_safe committedWeight_safe
        js_sub_safe)

theorem headroom_and_reason_when_request_fits_witness:
  "getStockManagementSetting shop \<and>
   find_product shop ''apple'' = Some apple_row \<and> \<not> product_isWeightBased apple_row \<and>
   find_inventory shop ''apple'' None = Some apple_stock \<and>
   row_availableQuantity apple_stock = 5 \<and>
   totalRequestedQuantity (in_cart apple 3 None) apple 5 = 8 \<and>
   isSafeInteger 8 \<and> isSafeInteger 2 \<and>
   addToCartWithToast shop (in_cart apple 3 None) apple 5 None = LimitedStock 2 5 3 \<and>
   addToCartWithToast shop (in_cart apple 5 None) apple 1 None = AlreadyAtMaximum 5 \<and>
   addToCartWithToast shop (in_cart apple 7 None) apple 1 None = AlreadyAtMaximum 7 \<and>
   addToCartWithToast shop (in_cart apple 2 None) apple 6 None =
     InsufficientStock (ServerMessage (OnlyUnits 5)) \<and>
   find_product shop ''tea'' = Some tea_row \<and> product_isWeightBased tea_row \<and>
   find_inventory shop ''tea'' None = Some tea_stock \<and>
   row_availableWeight tea_stock = 1000 \<and>
   totalRequestedWeight (in_cart tea 2 (Some 200)) tea 1 (Some 700) = 1100 \<and>
   isSafeInteger 400 \<and> isSafeInteger 1100 \<and> isSafeInteger 600 \<and>
   addToCartWithToast shop (in_cart tea 2 (Some 200)) tea 1 (Some 700) =
     LimitedStock 600 1000 400 \<and>
   addToCartWithToast shop (in_cart tea 2 (Some 200)) tea 1 (Some 1001) =
     InsufficientStock (ServerMessage (OnlyGrams 1000))"
proof -
  have p: "p_id tea = ''tea''" "p_variantId tea = None"
    "p_stockManagementType tea = Some ''weight''"
    "p_id apple = ''apple''" "p_variantId apple = None"
    "p_stockManagementType apple = Some ''quantity''"
    by (simp_all add: tea_def apple_def)
  have apple: "find_product shop (p_id apple) = Some apple_row"
    "find_inventory shop (p_id apple) (p_variantId apple) = Some apple_stock"
    "product_isWeightBased apple_row \<longleftrightarrow> p_stockManagementType apple = Some ''weight''"
    "p_id apple \<noteq> []"
    using shop_products(1) shop_inventory(1) shop_modes(1) by (simp_all add: p)
  have tea: "find_product shop (p_id tea) = Some tea_row"
    "find_inventory shop (p_id tea) (p_variantId tea) = Some tea_stock"
    "product_isWeightBased tea_row \<longleftrightarrow> p_stockManagementType tea = Some ''weight''"
    "p_id tea \<noteq> []"
    using shop_products(2) shop_inventory(2) shop_modes(2) by (simp_all add: p)
  note a = headroom_and_reason_when_request_fits
             [OF shop_enabled shop_queries apple(4,1,2,3)]
  note t = headroom_and_reason_when_request_fits
             [OF shop_enabled shop_queries tea(4,1,2,3)]
  from a [where quantity = 5 and items = "in_cart apple 3 None" and weightInGrams = None]
       a [where quantity = 1 and items = "in_cart apple 5 None" and weightInGrams = None]
       a [where quantity = 1 and items = "in_cart apple 7 None" and weightInGrams = None]
       a [where quantity = 6 and items = "in_cart apple 2 None" and weightInGrams = None]
       t [where quantity = 1 and items = "in_cart tea 2 (Some 200)"
            and weightInGrams = "Some 700"]
       t [where quantity = 1 and items = "in_cart tea 2 (Some 200)"
            and weightInGrams = "Some 1001"]
       shop_enabled shop_products shop_inventory shop_modes shop_amounts shop_carts
       shop_sums
  show ?thesis by simp
qed

section \<open>Input errors and error statuses\<close>



text \<open>
  Claim C6, as stated, fails when stock management is off: the handler answers before it
  looks the product up, so a request for a product that does not exist is answered with
  status 200 and \<open>available = true\<close>, not 404.
\<close>

theorem unknown_product_answered_ok_counterexample:
  "find_product shop_unset ''ghost'' = None \<and>
   POST shop_unset (Body (quantity_request ''ghost'' 1)) = Json ghost_answer \<and>
   POST shop_unset (Body (quantity_request ''ghost'' 1)) \<noteq> Failure 404 ''Product not found''"
  by (simp add: find_product_def shop_unset_def shop_def apple_row_def tea_row_def
        pear_row_def getStockManagementSetting_def quantity_request_def
        disabled_result_def or_zero_def ghost_answer_def)

text \<open>
  Claim C6, amended. A body that cannot be read is answered 500, and a request that names
  no product 400. Once a product is named: with stock management off the answer is the
  bypass (status 200), whether or not the product exists and whatever amount fields are
  there. With stock management on, a failing product query is answered 500, a product
  that does not exist 404, a missing amount of the product's mode 400, and a failing
  inventory query 500. A failing settings query is none of these: it reads as stock
  management off.
\<close>

theorem error_statuses_of_the_check:
  "POST d Malformed = Failure 500 ''Failed to check inventory'' \<and>
   (\<not> truthy (productId r) \<longrightarrow>
      POST d (Body r) = Failure 400 ''Product ID is required'') \<and>
   (truthy (productId r) \<and> \<not> getStockManagementSetting d \<longrightarrow>
      POST d (Body r) = Json (disabled_result r)) \<and>
   (truthy (productId r) \<and> getStockManagementSetting d \<and>
    ProductQuery \<in> set (failing d) \<longrightarrow>
      POST d (Body r) = Failure 500 ''Failed to check inventory'') \<and>
   (productId r = Some pid \<and> pid \<noteq> [] \<and> getStockManagementSetting d \<and>
    ProductQuery \<notin> set (failing d) \<and> find_product d pid = None \<longrightarrow>
      POST d (Body r) = Failure 404 ''Product not found'') \<and>
   (productId r = Some pid \<and> pid \<noteq> [] \<and> getStockManagementSetting d \<and>
    ProductQuery \<notin> set (failing d) \<and> find_product d pid = Some p \<and>
    product_isWeightBased p \<and> requestedWeight r = None \<longrightarrow>
      POST d (Body r) =
        Failure 400 ''Requested weight is required for weight-based products'') \<and>
   (productId r = Some pid \<and> pid \<noteq> [] \<and> getStockManagementSetting d \<and>
    ProductQuery \<notin> set (failing d) \<and> find_product d pid = Some p \<and>
    \<not> product_isWeightBased p \<and> requestedQuantity r = None \<longrightarrow>
      POST d (Body r) =
        Failure 400 ''Requested quantity is required for quantity-based products'') \<and>
   (productId r = Some pid \<and> pid \<noteq> [] \<and> getStockManagementSetting d \<and>
    ProductQuery \<notin> set (failing d) \<and> find_product d pid = Some p \<and>
    (if product_isWeightBased p then requestedWeight r \<noteq> None
     else requestedQuantity r \<noteq> None) \<and>
    InventoryQuery \<in> set (failing d) \<longrightarrow>
      POST d (Body r) = Failure 500 ''Failed to check inventory'')"
proof (intro conjI impI)
  show "POST d Malformed = Failure 500 ''Failed to check inventory''"
    by simp
next
  show "\<not> truthy (productId r) \<Longrightarrow> POST d (Body r) = Failure 400 ''Product ID is required''"
    by (rule POST_no_productId)
next
  assume "truthy (productId r) \<and> \<not> getStockManagementSetting d"
  then show "POST d (Body r) = Json (disabled_result r)"
    by (simp add: POST_disabled del: POST.simps)
next
  assume "truthy (productId r) \<and> getStockManagementSetting d \<and>
    ProductQuery \<in> set (failing d)"
  then show "POST d (Body r) = Failure 500 ''Failed to check inventory''"
    by simp
next
  assume "productId r = Some pid \<and> pid \<noteq> [] \<and> getStockManagementSetting d \<and>
    ProductQuery \<notin> set (failing d) \<and> find_product d pid = None"
  then show "POST d (Body r) = Failure 404 ''Product not found''"
    by simp
next
  assume "productId r = Some pid \<and> pid \<noteq> [] \<and> getStockManagementSetting d \<and>
    ProductQuery \<notin> set (failing d) \<and> find_product d pid = Some p \<and>
    product_isWeightBased p \<and> requestedWeight r = None"
  then show "POST d (Body r) =
        Failure 400 ''Requested weight is required for weight-based products''"
    by (simp add: POST_missing_amount(1) [where pid = pid and p = p] del: POST.simps)
next
  assume "productId r = Some pid \<and> pid \<noteq> [] \<and> getStockManagementSetting d \<and>
    ProductQuery \<notin> set (failing d) \<and> find_product d pid = Some p \<and>
    \<not> product_isWeightBased p \<and> requestedQuantity r = None"
  then show "POST d (Body r) =
        Failure 400 ''Requested quantity is required for quantity-based products''"
    by (simp add: POST_missing_amount(2) [where pid = pid and p = p] del: POST.simps)
next
  assume "productId r = Some pid \<and> pid \<noteq> [] \<and> getStockManagementSetting d \<and>
    ProductQuery \<notin> set (failing d) \<and> find_product d pid = Some p \<and>
    (if product_isWeightBased p then requestedWeight r \<noteq> None
     else requestedQuantity r \<noteq> None) \<and>
    InventoryQuery \<in> set (failing d)"
  then show "POST d (Body r) = Failure 500 ''Failed to check inventory''"
    by (auto simp: Let_def)
qed

theorem error_statuses_of_the_check_witness:
  "\<not> truthy (productId anonymous_request) \<and>
   POST shop (Body anonymous_request) = Failure 400 ''Product ID is required'' \<and>
   truthy (productId (quantity_request ''ghost'' 1)) \<and>
   \<not> getStockManagementSetting shop_unset \<and>
   POST shop_unset (Body (quantity_request ''ghost'' 1)) =
     Json (disabled_result (quantity_request ''ghost'' 1)) \<and>
   getStockManagementSetting shop \<and> ProductQuery \<notin> set (failing shop) \<and>
   find_product shop ''ghost'' = None \<and>
   POST shop (Body (quantity_request ''ghost'' 1)) = Failure 404 ''Product not found'' \<and>
   find_product shop ''tea'' = Some tea_row \<and> product_isWeightBased tea_row \<and>
   requestedWeight (quantity_request ''tea'' 5) = None \<and>
   POST shop (Body (quantity_request ''tea'' 5)) =
     Failure 400 ''Requested weight is required for weight-based products'' \<and>
   find_product shop ''apple'' = Some apple_row \<and> \<not> product_isWeightBased apple_row \<and>
   requestedQuantity (weight_request ''apple'' 5) = None \<and>
   POST shop (Body (weight_request ''apple'' 5)) =
     Failure 400 ''Requested quantity is required for quantity-based products'' \<and>
   getStockManagementSetting shop_no_products \<and>
   ProductQuery \<in> set (failing shop_no_products) \<and>
   POST shop_no_products (Body (quantity_request ''apple'' 1)) =
     Failure 500 ''Failed to check inventory'' \<and>
   getStockManagementSetting shop_no_inventory \<and>
   ProductQuery \<notin> set (failing shop_no_inventory) \<and>
   InventoryQuery \<in> set (failing shop_no_inventory) \<and>
   find_product shop_no_inventory ''apple'' = Some apple_row \<and>
   requestedQuantity (quantity_request ''apple'' 1) \<noteq> None \<and>
   POST shop_no_inventory (Body (quantity_request ''apple'' 1)) =
     Failure 500 ''Failed to check inventory''"
proof -
  have r: "\<not> truthy (productId anonymous_request)"
    "productId (quantity_request pid n) = Some pid"
    "requestedWeight (quantity_request pid n) = None"
    "requestedQuantity (quantity_request pid n) = Some n"
    "productId (weight_request pid n) = Some pid"
    "requestedQuantity (weight_request pid n) = None" for pid n
    by (simp_all add: anonymous_request_def quantity_request_def weight_request_def)
  have off: "\<not> getStockManagementSetting shop_unset"
    by (simp add: getStockManagementSetting_def shop_unset_def shop_def)
  have ghost: "find_product shop ''ghost'' = None"
    by (simp add: find_product_def shop_def apple_row_def tea_row_def pear_row_def)
  have broken: "getStockManagementSetting shop_no_products"
    "ProductQuery \<in> set (failing shop_no_products)"
    "getStockManagementSetting shop_no_inventory"
    "ProductQuery \<notin> set (failing shop_no_inventory)"
    "InventoryQuery \<in> set (failing shop_no_inventory)"
    "find_product shop_no_inventory ''apple'' = Some apple_row"
    by (simp_all add: getStockManagementSetting_def find_product_def shop_no_products_def
          shop_no_inventory_def shop_def setting_on_def apple_row_def)
  note e = error_statuses_of_the_check
  from e [where d = shop and r = anonymous_request]
       e [where d = shop_unset and r = "quantity_request ''ghost'' 1"]
       e [where d = shop and r = "quantity_request ''ghost'' 1" and pid = "''ghost''"]
       e [where d = shop and r = "quantity_request ''tea'' 5" and pid = "''tea''"
            and p = tea_row]
       e [where d = shop and r = "weight_request ''apple'' 5" and pid = "''apple''"
            and p = apple_row]
       e [where d = shop_no_products and r = "quantity_request ''apple'' 1"]
       e [where d = shop_no_inventory and r = "quantity_request ''apple'' 1"
            and pid = "''apple''" and p = apple_row]
       shop_enabled shop_queries(1) shop_products shop_modes r off ghost broken
  show ?thesis by (simp del: POST.simps)
qed

section \<open>Zero and negative amounts\<close>

text \<open>
  Claim C7, as stated, fails when stock management is on and the product has no inventory
  record: a request for zero pears is accepted as input, and answered \<open>available = false\<close>.
\<close>

theorem zero_request_without_record_counterexample:
  "getStockManagementSetting shop \<and>
   requestedQuantity (quantity_request ''pear'' 0) = Some 0 \<and>
   find_inventory shop ''pear'' None = None \<and>
   POST shop (Body (quantity_request ''pear'' 0)) =
     Json (no_record_result False (quantity_request ''pear'' 0)) \<and>
   \<not> available (no_record_result False (quantity_request ''pear'' 0))"
proof -
  have r: "productId (quantity_request ''pear'' 0) = Some ''pear''"
    "requestedQuantity (quantity_request ''pear'' 0) = Some 0"
    "find_inventory shop ''pear'' (variantId (quantity_request ''pear'' 0)) = None"
    using shop_inventory(3) by (simp_all add: quantity_request_def)
  have "POST shop (Body (quantity_request ''pear'' 0)) =
        Json (no_record_result (product_isWeightBased pear_row) (quantity_request ''pear'' 0))"
    by (rule POST_no_record [OF shop_enabled shop_queries r(1) _ shop_products(3) _ r(3)])
       (simp_all add: shop_modes(3) r(2))
  with shop_enabled shop_inventory(3) shop_modes(3) r(2) show ?thesis
    by (simp add: no_record_result_def del: POST.simps)
qed

text \<open>
  Claim C7, amended. A request for the amount zero in the product's mode is accepted as
  valid input by the endpoint that knows both modes. It is answered \<open>available = true\<close>
  when stock management is off, and when an inventory record exists whose available
  amount is not negative; with stock management on and no inventory record it is answered
  \<open>available = false\<close>.
\<close>

theorem zero_request_accepted:
  assumes "productId r = Some pid" and "pid \<noteq> []"
    and "if wb then requestedWeight r = Some 0 else requestedQuantity r = Some 0"
  shows "(\<not> getStockManagementSetting d \<longrightarrow>
            (\<exists>result. POST d (Body r) = Json result \<and> available result)) \<and>
         (getStockManagementSetting d \<and> ProductQuery \<notin> set (failing d) \<and>
          InventoryQuery \<notin> set (failing d) \<and> find_product d pid = Some p \<and>
          product_isWeightBased p = wb \<and>
          find_inventory d pid (variantId r) = Some row \<and>
          0 \<le> (if wb then row_availableWeight row else row_availableQuantity row) \<longrightarrow>
            (\<exists>result. POST d (Body r) = Json result \<and> available result)) \<and>
         (getStockManagementSetting d \<and> ProductQuery \<notin> set (failing d) \<and>
          InventoryQuery \<notin> set (failing d) \<and> find_product d pid = Some p \<and>
          product_isWeightBased p = wb \<and>
          find_inventory d pid (variantId r) = None \<longrightarrow>
            (\<exists>result. POST d (Body r) = Json result \<and> \<not> available result))"
proof (intro conjI impI)
  assume "\<not> getStockManagementSetting d"
  with assms(1,2) show "\<exists>result. POST d (Body r) = Json result \<and> available result"
    by (simp add: POST_disabled disabled_result_def del: POST.simps)
next
  assume h: "getStockManagementSetting d \<and> ProductQuery \<notin> set (failing d) \<and>
          InventoryQuery \<notin> set (failing d) \<and> find_product d pid = Some p \<and>
          product_isWeightBased p = wb \<and>
          find_inventory d pid (variantId r) = Some row \<and>
          0 \<le> (if wb then row_availableWeight row else row_availableQuantity row)"
  show "\<exists>result. POST d (Body r) = Json result \<and> available result"
  proof (cases wb)
    case True
    with h assms have "POST d (Body r) = Json (weight_result row r)"
      by (intro POST_weight [where pid = pid and p = p and w = 0]) simp_all
    with h assms True show ?thesis
      by (simp add: weight_result_def Let_def or_zero_def del: POST.simps)
  next
    case False
    with h assms have "POST d (Body r) = Json (quantity_result row r)"
      by (intro POST_quantity_mode [where pid = pid and p = p and q = 0]) simp_all
    with h assms False show ?thesis
      by (simp add: quantity_result_def Let_def or_zero_def del: POST.simps)
  qed
next
  assume h: "getStockManagementSetting d \<and> ProductQuery \<notin> set (failing d) \<and>
          InventoryQuery \<notin> set (failing d) \<and> find_product d pid = Some p \<and>
          product_isWeightBased p = wb \<and>
          find_inventory d pid (variantId r) = None"
  with assms have "POST d (Body r) = Json (no_record_result (product_isWeightBased p) r)"
    by (intro POST_no_record [where pid = pid and p = p]) (simp_all split: if_splits)
  then show "\<exists>result. POST d (Body r) = Json result \<and> \<not> available result"
    by (simp add: no_record_result_def del: POST.simps)
qed

theorem zero_request_accepted_witness:
  "requestedQuantity (quantity_request ''apple'' 0) = Some 0 \<and>
   requestedWeight (weight_request ''tea'' 0) = Some 0 \<and>
   \<not> getStockManagementSetting shop_unset \<and> getStockManagementSetting shop \<and>
   find_inventory shop ''apple'' None = Some apple_stock \<and>
   0 \<le> row_availableQuantity apple_stock \<and>
   find_inventory shop ''tea'' None = Some tea_stock \<and>
   0 \<le> row_availableWeight tea_stock \<and>
   find_inventory shop ''pear'' None = None \<and>
   (\<exists>result. POST shop_unset (Body (quantity_request ''apple'' 0)) = Json result \<and>
      available result) \<and>
   (\<exists>result. POST shop (Body (quantity_request ''apple'' 0)) = Json result \<and>
      available result) \<and>
   (\<exists>result. POST shop (Body (weight_request ''tea'' 0)) = Json result \<and>
      available result) \<and>
   (\<exists>result. POST shop (Body (quantity_request ''pear'' 0)) = Json result \<and>
      \<not> available result)"
proof -
  have r: "productId (quantity_request pid 0) = Some pid"
    "variantId (quantity_request pid 0) = None"
    "requestedQuantity (quantity_request pid 0) = Some 0"
    "productId (weight_request pid 0) = Some pid"
    "variantId (weight_request pid 0) = None"
    "requestedWeight (weight_request pid 0) = Some 0" for pid
    by (simp_all add: quantity_request_def weight_request_def)
  have off: "\<not> getStockManagementSetting shop_unset"
    by (simp add: getStockManagementSetting_def shop_unset_def shop_def)
  have a: "if False then requestedWeight (quantity_request pid 0) = Some 0
           else requestedQuantity (quantity_request pid 0) = Some 0" for pid
    by (simp add: r)
  have t: "if True then requestedWeight (weight_request ''tea'' 0) = Some 0
           else requestedQuantity (weight_request ''tea'' 0) = Some 0"
    by (simp add: r)
  from zero_request_accepted [OF r(1) _ a, where d = shop_unset and pid = "''apple''"]
       zero_request_accepted [OF r(1) _ a, where d = shop and pid = "''apple''"
         and p = apple_row and row = apple_stock]
       zero_request_accepted [OF r(4) _ t, where d = shop and p = tea_row
         and row = tea_stock]
       zero_request_accepted [OF r(1) _ a, where d = shop and pid = "''pear''"
         and p = pear_row]
       off shop_enabled shop_queries shop_products shop_inventory shop_modes shop_amounts r
  show ?thesis by (simp del: POST.simps)
qed

text \<open>
  Claim C8, as stated, fails: nothing in the endpoint looks at the sign of the amount. A
  request for \<open>-1\<close> apples is evaluated and answered \<open>available = true\<close>.
\<close>

theorem negative_request_is_evaluated_counterexample:
  "requestedQuantity (quantity_request ''apple'' (- 1)) = Some (- 1) \<and>
   POST shop (Body (quantity_request ''apple'' (- 1))) =
     Json (quantity_result apple_stock (quantity_request ''apple'' (- 1))) \<and>
   available (quantity_result apple_stock (quantity_request ''apple'' (- 1)))"
proof -
  have r: "productId (quantity_request ''apple'' (- 1)) = Some ''apple''"
    "requestedQuantity (quantity_request ''apple'' (- 1)) = Some (- 1)"
    "find_inventory shop ''apple'' (variantId (quantity_request ''apple'' (- 1))) =
       Some apple_stock"
    using shop_inventory(1) by (simp_all add: quantity_request_def)
  have "POST shop (Body (quantity_request ''apple'' (- 1))) =
        Json (quantity_result apple_stock (quantity_request ''apple'' (- 1)))"
    by (rule POST_quantity_mode
              [OF shop_enabled shop_queries r(1) _ shop_products(1) shop_modes(1) r(2,3)])
       simp
  with r(2) shop_amounts(1) show ?thesis
    by (simp add: quantity_result_def Let_def or_zero_def del: POST.simps)
qed

text \<open>
  Claim C8, amended. A negative requested amount is not an input error: the endpoint
  evaluates it like any other amount. With stock management off it is answered
  \<open>available = true\<close>; with an inventory record, \<open>available\<close> is whether the available
  amount is at least the (negative) request, hence true whenever the available amount is
  not negative; without an inventory record it is answered \<open>available = false\<close>.
\<close>

theorem negative_request_not_rejected:
  assumes "productId r = Some pid" and "pid \<noteq> []"
    and "if wb then requestedWeight r = Some a else requestedQuantity r = Some a"
    and "a < 0"
  shows "(\<not> getStockManagementSetting d \<longrightarrow>
            (\<exists>result. POST d (Body r) = Json result \<and> available result)) \<and>
         (getStockManagementSetting d \<and> ProductQuery \<notin> set (failing d) \<and>
          InventoryQuery \<notin> set (failing d) \<and> find_product d pid = Some p \<and>
          product_isWeightBased p = wb \<and>
          find_inventory d pid (variantId r) = Some row \<longrightarrow>
            (\<exists>result. POST d (Body r) = Json result \<and>
               (available result \<longleftrightarrow>
                  (if wb then row_availableWeight row else row_availableQuantity row) \<ge> a) \<and>
               (0 \<le> (if wb then row_availableWeight row else row_availableQuantity row)
                  \<longrightarrow> available result))) \<and>
         (getStockManagementSetting d \<and> ProductQuery \<notin> set (failing d) \<and>
          InventoryQuery \<notin> set (failing d) \<and> find_product d pid = Some p \<and>
          product_isWeightBased p = wb \<and>
          find_inventory d pid (variantId r) = None \<longrightarrow>
            (\<exists>result. POST d (Body r) = Json result \<and> \<not> available result))"
proof (intro conjI impI)
  assume "\<not> getStockManagementSetting d"
  with assms(1,2) show "\<exists>result. POST d (Body r) = Json result \<and> available result"
    by (simp add: POST_disabled disabled_result_def del: POST.simps)
next
  assume h: "getStockManagementSetting d \<and> ProductQuery \<notin> set (failing d) \<and>
          InventoryQuery \<notin> set (failing d) \<and> find_product d pid = Some p \<and>
          product_isWeightBased p = wb \<and>
          find_inventory d pid (variantId r) = Some row"
  show "\<exists>result. POST d (Body r) = Json result \<and>
               (available result \<longleftrightarrow>
                  (if wb then row_availableWeight row else row_availableQuantity row) \<ge> a) \<and>
               (0 \<le> (if wb then row_availableWeight row else row_availableQuantity row)
                  \<longrightarrow> available result)"
  proof (cases wb)
    case True
    with h assms have "POST d (Body r) = Json (weight_result row r)"
      by (intro POST_weight [where pid = pid and p = p and w = a]) simp_all
    with h assms True show ?thesis
      by (simp add: weight_result_def Let_def or_zero_def del: POST.simps)
  next
    case False
    with h assms have "POST d (Body r) = Json (quantity_result row r)"
      by (intro POST_quantity_mode [where pid = pid and p = p and q = a]) simp_all
    with h assms False show ?thesis
      by (simp add: quantity_result_def Let_def or_zero_def del: POST.simps)
  qed
next
  assume h: "getStockManagementSetting d \<and> ProductQuery \<notin> set (failing d) \<and>
          InventoryQuery \<notin> set (failing d) \<and> find_product d pid = Some p \<and>
          product_isWeightBased p = wb \<and>
          find_inventory d pid (variantId r) = None"
  with assms have "POST d (Body r) = Json (no_record_result (product_isWeightBased p) r)"
    by (intro POST_no_record [where pid = pid and p = p]) (simp_all split: if_splits)
  then show "\<exists>result. POST d (Body r) = Json result \<and> \<not> available result"
    by (simp add: no_record_result_def del: POST.simps)
qed

theorem negative_request_not_rejected_witness:
  "(- 3 :: number) < 0 \<and>
   requestedQuantity (quantity_request ''apple'' (- 3)) = Some (- 3) \<and>
   requestedWeight (weight_request ''tea'' (- 3)) = Some (- 3) \<and>
   \<not> getStockManagementSetting shop_unset \<and> getStockManagementSetting shop \<and>
   find_inventory shop ''apple'' None = Some apple_stock \<and>
   find_inventory shop ''tea'' None = Some tea_stock \<and>
   find_inventory shop ''pear'' None = None \<and>
   (\<exists>result. POST shop_unset (Body (quantity_request ''apple'' (- 3))) = Json result \<and>
      available result) \<and>
   (\<exists>result. POST shop (Body (quantity_request ''apple'' (- 3))) = Json result \<and>
      available result) \<and>
   (\<exists>result. POST shop (Body (weight_request ''tea'' (- 3))) = Json result \<and>
      available result) \<and>
   (\<exists>result. POST shop (Body (quantity_request ''pear'' (- 3))) = Json result \<and>
      \<not> available result)"
proof -
  have r: "productId (quantity_request pid (- 3)) = Some pid"
    "variantId (quantity_request pid (- 3)) = None"
    "requestedQuantity (quantity_request pid (- 3)) = Some (- 3)"
    "productId (weight_request pid (- 3)) = Some pid"
    "variantId (weight_request pid (- 3)) = None"
    "requestedWeight (weight_request pid (- 3)) = Some (- 3)" for pid
    by (simp_all add: quantity_request_def weight_request_def)
  have off: "\<not> getStockManagementSetting shop_unset"
    by (simp add: getStockManagementSetting_def shop_unset_def shop_def)
  have a: "if False then requestedWeight (quantity_request pid (- 3)) = Some (- 3)
           else requestedQuantity (quantity_request pid (- 3)) = Some (- 3)" for pid
    by (simp add: r)
  have t: "if True then requestedWeight (weight_request ''tea'' (- 3)) = Some (- 3)
           else requestedQuantity (weight_request ''tea'' (- 3)) = Some (- 3)"
    by (simp add: r)
  have neg: "(- 3 :: number) < 0"
    by simp
  from negative_request_not_rejected
         [OF r(1) _ a neg, where d = shop_unset and pid = "''apple''"]
       negative_request_not_rejected
         [OF r(1) _ a neg, where d = shop and pid = "''apple''" and p = apple_row
            and row = apple_stock]
       negative_request_not_rejected
         [OF r(4) _ t neg, where d = shop and p = tea_row and row = tea_stock]
       negative_request_not_rejected
         [OF r(1) _ a neg, where d = shop and pid = "''pear''" and p = pear_row]
       off shop_enabled shop_queries shop_products shop_inventory shop_modes shop_amounts r
  show ?thesis by (simp del: POST.simps)
qed

section \<open>Registration and the magic link\<close>

text \<open>
  Claim C10. A registration that passes the checks of the handler (email or phone,
  password and name given, no account with that email or phone yet) inserts one user. Its
  status is "approved" exactly when a magic token is given and the row the lookup returns
  for it is enabled, which, tokens being distinct in the table, is exactly when some row
  with that token is enabled; otherwise the status is "pending". The answer's
  \<open>requiresApproval\<close> is true exactly when the status is "pending".
\<close>

theorem register_status_follows_magic_link:
  assumes "truthy (reg_email r)" and "truthy (reg_password r)" and "truthy (reg_name r)"
    and "existingUser d (the (reg_email r)) = None"
  shows "\<exists>d' mail u message requiresApproval autoApproved.
           register uuid1 uuid2 hash d r =
             (d', mail, Registered message requiresApproval autoApproved) \<and>
           users d' = users d @ [u] \<and>
           (user_status u = ''approved'' \<longleftrightarrow>
              truthy (reg_magicToken r) \<and>
              (\<exists>l. find (\<lambda>x. link_token x = the (reg_magicToken r)) (globalMagicLink d)
                     = Some l \<and> link_isEnabled l)) \<and>
           (distinct (map link_token (globalMagicLink d)) \<longrightarrow>
              (user_status u = ''approved'' \<longleftrightarrow>
                 truthy (reg_magicToken r) \<and>
                 (\<exists>l \<in> set (globalMagicLink d).
                    link_token l = the (reg_magicToken r) \<and> link_isEnabled l))) \<and>
           (user_status u = ''pending'' \<longleftrightarrow> user_status u \<noteq> ''approved'') \<and>
           (requiresApproval \<longleftrightarrow> user_status u = ''pending'')"
proof -
  from register_accepted [OF assms]
  obtain d' mail u where
    reg: "register uuid1 uuid2 hash d r =
            (d', mail,
             if isMagicLinkValid d (reg_magicToken r)
             then Registered AutoApproved False (Some True)
             else Registered PendingApproval True None)"
    and u: "users d' = users d @ [u]"
      "user_status u =
         (if isMagicLinkValid d (reg_magicToken r) then ''approved'' else ''pending'')"
    by blast
  have first: "user_status u = ''approved'' \<longleftrightarrow>
              truthy (reg_magicToken r) \<and>
              (\<exists>l. find (\<lambda>x. link_token x = the (reg_magicToken r)) (globalMagicLink d)
                     = Some l \<and> link_isEnabled l)"
    using u(2) isMagicLinkValid_first [of d "reg_magicToken r"] by simp
  have any: "distinct (map link_token (globalMagicLink d)) \<longrightarrow>
              (user_status u = ''approved'' \<longleftrightarrow>
                 truthy (reg_magicToken r) \<and>
                 (\<exists>l \<in> set (globalMagicLink d).
                    link_token l = the (reg_magicToken r) \<and> link_isEnabled l))"
  proof
    assume "distinct (map link_token (globalMagicLink d))"
    from isMagicLinkValid_distinct [OF this, of "reg_magicToken r"] u(2)
    show "user_status u = ''approved'' \<longleftrightarrow>
                 truthy (reg_magicToken r) \<and>
                 (\<exists>l \<in> set (globalMagicLink d).
                    link_token l = the (reg_magicToken r) \<and> link_isEnabled l)"
      by simp
  qed
  have pending: "user_status u = ''pending'' \<longleftrightarrow> user_status u \<noteq> ''approved''"
    using u(2) by simp
  obtain message requiresApproval autoApproved where
    resp: "register uuid1 uuid2 hash d r =
             (d', mail, Registered message requiresApproval autoApproved)"
    and approval: "requiresApproval \<longleftrightarrow> user_status u = ''pending''"
  proof (cases "isMagicLinkValid d (reg_magicToken r)")
    case True
    with reg u(2) that [of AutoApproved False "Some True"] show ?thesis
      by simp
  next
    case False
    with reg u(2) that [of PendingApproval True None] show ?thesis
      by simp
  qed
  from resp u(1) first any pending approval show ?thesis
    by blast
qed

theorem register_status_follows_magic_link_witness:
  "truthy (reg_email (applicant (Some ''open''))) \<and>
   truthy (reg_password (applicant (Some ''open''))) \<and>
   truthy (reg_name (applicant (Some ''open''))) \<and>
   existingUser desk (the (reg_email (applicant (Some ''open'')))) = None \<and>
   distinct (map link_token (globalMagicLink desk)) \<and>
   (\<exists>d' mail u message autoApproved.
      register ''u1'' ''u2'' rev desk (applicant (Some ''open'')) =
        (d', mail, Registered message False autoApproved) \<and>
      users d' = [u] \<and> user_status u = ''approved'') \<and>
   (\<exists>d' mail u message autoApproved.
      register ''u1'' ''u2'' rev desk (applicant (Some ''shut'')) =
        (d', mail, Registered message True autoApproved) \<and>
      users d' = [u] \<and> user_status u = ''pending'') \<and>
   (\<exists>d' mail u message autoApproved.
      register ''u1'' ''u2'' rev desk (applicant None) =
        (d', mail, Registered message True autoApproved) \<and>
      users d' = [u] \<and> user_status u = ''pending'')"
proof -
  have ex: "existingUser desk (the (reg_email (applicant t))) = None" for t
    by (simp add: applicant_facts desk_facts)
  note reg = register_status_follows_magic_link
               [OF applicant_facts(1-3) ex,
                where ?uuid1.0 = "''u1''" and ?uuid2.0 = "''u2''" and hash = rev]
  from reg [of "Some ''open''"] desk_links(1) desk_facts(1)
  have a: "\<exists>d' mail u message autoApproved.
      register ''u1'' ''u2'' rev desk (applicant (Some ''open'')) =
        (d', mail, Registered message False autoApproved) \<and>
      users d' = [u] \<and> user_status u = ''approved''"
    by (auto simp: applicant_facts(5) desk_facts(3))
  from reg [of "Some ''shut''"] desk_links(2) desk_facts(1)
  have b: "\<exists>d' mail u message autoApproved.
      register ''u1'' ''u2'' rev desk (applicant (Some ''shut'')) =
        (d', mail, Registered message True autoApproved) \<and>
      users d' = [u] \<and> user_status u = ''pending''"
    by (auto simp: applicant_facts(5) desk_facts(3))
  from reg [of None] desk_facts(1)
  have c: "\<exists>d' mail u message autoApproved.
      register ''u1'' ''u2'' rev desk (applicant None) =
        (d', mail, Registered message True autoApproved) \<and>
      users d' = [u] \<and> user_status u = ''pending''"
    by (auto simp: applicant_facts(5) desk_facts(3))
  from a b c applicant_facts(1-3) ex desk_facts(1) show ?thesis
    by blast
qed

end
